theory Spec2Isabelle
  imports Main "HOL-Library.Word"
begin

unbundle bit_operations_syntax

section \<open>Shared data: big-endian fields, backend commands, observable effects\<close>

text \<open>
  The two front ends of \<^verbatim>\<open>hw/tpm\<close> are embedded as state-passing functions. Each
  function takes the device state and returns the new state together with the list of
  calls it makes to its collaborators (backend, DMA engine, CRQ transport), in program
  order. What a collaborator hands back (a return code, the bytes a DMA read delivered,
  the backend's buffer size) is an argument of the function. \<^verbatim>\<open>size_t\<close> is 64 bits
  wide, \<^verbatim>\<open>int\<close> return codes are \<^typ>\<open>int\<close>.
\<close>

text \<open>
  A big-endian field of a CRQ message is kept as its bytes in memory order, so that the
  model does not depend on the byte order of the host: \<^verbatim>\<open>cpu_to_be16(v)\<close> stored into a
  \<^verbatim>\<open>uint16_t\<close> leaves the high byte of \<^verbatim>\<open>v\<close> at the lower address.
\<close>

type_synonym be16 = "8 word \<times> 8 word"
type_synonym be32 = "8 word \<times> 8 word \<times> 8 word \<times> 8 word"

definition cpu_to_be16 :: "16 word \<Rightarrow> be16" where
  "cpu_to_be16 v = (ucast (drop_bit 8 v), ucast v)"

fun be16_to_cpu :: "be16 \<Rightarrow> 16 word" where
  "be16_to_cpu (hi, lo) = push_bit 8 (ucast hi) OR ucast lo"

definition cpu_to_be32 :: "32 word \<Rightarrow> be32" where
  "cpu_to_be32 v =
     (ucast (drop_bit 24 v), ucast (drop_bit 16 v), ucast (drop_bit 8 v), ucast v)"

fun be32_to_cpu :: "be32 \<Rightarrow> 32 word" where
  "be32_to_cpu (b3, b2, b1, b0) =
     push_bit 24 (ucast b3) OR push_bit 16 (ucast b2) OR push_bit 8 (ucast b1) OR ucast b0"

text \<open>\<^verbatim>\<open>typedef struct VioCRQ\<close>: the 16-byte mailbox message.\<close>

record VioCRQ =
  valid :: "8 word"
  msg :: "8 word"
  len :: be16
  data :: be32
  reserved :: "64 word"

text \<open>
  \<^verbatim>\<open>TPMBackendCmd\<close> is declared in \<^verbatim>\<open>sysemu/tpm_backend.h\<close>; the front ends fill
  in the locality, the two buffer pointers and the two 32-bit lengths. A pointer is
  modelled by the buffer it points to: input and output alias the same memory.
\<close>

datatype buf_ptr = NULL_PTR | PTR_cmdmem | PTR_buffer

record TPMBackendCmd =
  locty :: "8 word"
  in_ptr :: buf_ptr
  in_len :: "32 word"
  out_ptr :: buf_ptr
  out_len :: "32 word"

datatype effect =
    BackendReset
  | BackendStartup "64 word"
  | BackendCancel
  | BackendDeliver TPMBackendCmd
  | DmaRead "64 word" "64 word"
  | DmaWrite "64 word" "8 word list"
  | SendCrq VioCRQ
  | ErrorReport string

section \<open>The CRB interface (\<^verbatim>\<open>hw/tpm/tpm_crb.c\<close>)\<close>

text \<open>\<^verbatim>\<open>struct crb_regs\<close> of \<^verbatim>\<open>include/hw/acpi/tpm.h\<close>, packed, field by field.\<close>

record crb_regs =
  loc_state :: "32 word"
  reserved1 :: "32 word"
  loc_ctrl :: "32 word"
  loc_sts :: "32 word"
  reserved2 :: "8 word list"
  intf_id_low :: "32 word"
  intf_id_high :: "32 word"
  ctrl_ext_low :: "32 word"
  ctrl_ext_high :: "32 word"
  ctrl_req :: "32 word"
  ctrl_sts :: "32 word"
  ctrl_cancel :: "32 word"
  ctrl_start :: "32 word"
  ctrl_int_enable :: "32 word"
  ctrl_int_sts :: "32 word"
  ctrl_cmd_size :: "32 word"
  ctrl_cmd_pa_low :: "32 word"
  ctrl_cmd_pa_high :: "32 word"
  ctrl_rsp_size :: "32 word"
  ctrl_rsp_pa_low :: "32 word"
  ctrl_rsp_pa_high :: "32 word"
  reserved3 :: "8 word list"
  data_buffer :: "8 word list"

text \<open>
  \<^verbatim>\<open>sizeof(struct crb_regs)\<close>: the struct is packed, so its size is the sum of the
  sizes of its fields in declaration order, the trailing \<^verbatim>\<open>data_buffer[0x1000 - 0x80]\<close>
  included.
\<close>

definition sizeof_crb_regs :: nat where
  "sizeof_crb_regs =
     4 + 4 + 4 + 4 + 32 + 4 + 4 + 4 + 4
     + 4 + 4 + 4 + 4 + 4 + 4 + 4 + 4 + 4 + 4 + 4 + 4
     + 0x10 + (0x1000 - 0x80)"

definition TPM_CRB_ADDR_BASE :: "64 word" where
  "TPM_CRB_ADDR_BASE = 0xFED40000"

definition TPM_CRB_ADDR_SIZE :: "64 word" where
  "TPM_CRB_ADDR_SIZE = 0x1000"

text \<open>\<^verbatim>\<open>offsetof(struct crb_regs, field)\<close>: the sizes of the fields before it.\<close>

definition CRB_ADDR_LOC_STATE :: "64 word" where
  "CRB_ADDR_LOC_STATE = 0"

definition CRB_ADDR_LOC_CTRL :: "64 word" where
  "CRB_ADDR_LOC_CTRL = 4 + 4"

definition CRB_ADDR_CTRL_REQ :: "64 word" where
  "CRB_ADDR_CTRL_REQ = 4 + 4 + 4 + 4 + 32 + 4 + 4 + 4 + 4"

definition CRB_ADDR_CTRL_CANCEL :: "64 word" where
  "CRB_ADDR_CTRL_CANCEL = 4 + 4 + 4 + 4 + 32 + 4 + 4 + 4 + 4 + 4 + 4"

definition CRB_ADDR_CTRL_START :: "64 word" where
  "CRB_ADDR_CTRL_START = 4 + 4 + 4 + 4 + 32 + 4 + 4 + 4 + 4 + 4 + 4 + 4"

definition CRB_INTF_TYPE_CRB_ACTIVE :: "32 word" where
  "CRB_INTF_TYPE_CRB_ACTIVE = push_bit 0 1"

definition CRB_INTF_VERSION_CRB :: "32 word" where
  "CRB_INTF_VERSION_CRB = push_bit 4 1"

definition CRB_INTF_CAP_LOCALITY_0_ONLY :: "32 word" where
  "CRB_INTF_CAP_LOCALITY_0_ONLY = push_bit 8 0"

definition CRB_INTF_CAP_IDLE_FAST :: "32 word" where
  "CRB_INTF_CAP_IDLE_FAST = push_bit 9 0"

definition CRB_INTF_CAP_XFER_SIZE_64 :: "32 word" where
  "CRB_INTF_CAP_XFER_SIZE_64 = push_bit 11 3"

definition CRB_INTF_CAP_FIFO_NOT_SUPPORTED :: "32 word" where
  "CRB_INTF_CAP_FIFO_NOT_SUPPORTED = push_bit 13 0"

definition CRB_INTF_CAP_CRB_SUPPORTED :: "32 word" where
  "CRB_INTF_CAP_CRB_SUPPORTED = push_bit 14 1"

definition CRB_INTF_IF_SELECTOR_CRB :: "32 word" where
  "CRB_INTF_IF_SELECTOR_CRB = push_bit 17 1"

definition CRB_INTF_IF_SELECTOR_UNLOCKED :: "32 word" where
  "CRB_INTF_IF_SELECTOR_UNLOCKED = push_bit 19 0"

definition CRB_LOC_STATE_TPM_ESTABLISHED :: "32 word" where
  "CRB_LOC_STATE_TPM_ESTABLISHED = push_bit 0 1"

definition CRB_LOC_STATE_LOC_ASSIGNED :: "32 word" where
  "CRB_LOC_STATE_LOC_ASSIGNED = push_bit 1 1"

definition CRB_LOC_STATE_TPM_REG_VALID_STS :: "32 word" where
  "CRB_LOC_STATE_TPM_REG_VALID_STS = push_bit 7 1"

definition CRB_LOC_STS_GRANTED :: "32 word" where
  "CRB_LOC_STS_GRANTED = push_bit 0 1"

definition CRB_LOC_STS_BEEN_SEIZED :: "32 word" where
  "CRB_LOC_STS_BEEN_SEIZED = push_bit 1 1"

definition CRB_CTRL_STS_TPM_STS :: "32 word" where
  "CRB_CTRL_STS_TPM_STS = push_bit 0 1"

definition CRB_CTRL_STS_TPM_IDLE :: "32 word" where
  "CRB_CTRL_STS_TPM_IDLE = push_bit 1 1"

text \<open>
  \<^verbatim>\<open>#define CRB_CTRL_CMD_SIZE (TPM_CRB_ADDR_SIZE - sizeof(struct crb_regs))\<close>, computed
  in \<^verbatim>\<open>size_t\<close>.
\<close>

definition CRB_CTRL_CMD_SIZE :: "64 word" where
  "CRB_CTRL_CMD_SIZE = TPM_CRB_ADDR_SIZE - of_nat sizeof_crb_regs"

text \<open>The values of the enums, as the 64-bit value written by the guest is compared with them.\<close>

definition CRB_LOC_CTRL_REQUEST_ACCESS :: "64 word" where
  "CRB_LOC_CTRL_REQUEST_ACCESS = push_bit 0 1"

definition CRB_LOC_CTRL_RELINQUISH :: "64 word" where
  "CRB_LOC_CTRL_RELINQUISH = push_bit 1 1"

definition CRB_LOC_CTRL_SEIZE :: "64 word" where
  "CRB_LOC_CTRL_SEIZE = push_bit 2 1"

definition CRB_LOC_CTRL_RESET_ESTABLISHMENT_BIT :: "64 word" where
  "CRB_LOC_CTRL_RESET_ESTABLISHMENT_BIT = push_bit 3 1"

definition CRB_CTRL_REQ_CMD_READY :: "64 word" where
  "CRB_CTRL_REQ_CMD_READY = push_bit 0 1"

definition CRB_CTRL_REQ_GO_IDLE :: "64 word" where
  "CRB_CTRL_REQ_GO_IDLE = push_bit 1 1"

text \<open>
  \<^verbatim>\<open>CRB_START_INVOKE\<close> and \<^verbatim>\<open>CRB_CANCEL_INVOKE\<close> are compared with the written value
  and also used as a mask on the 32-bit start register.
\<close>

definition CRB_START_INVOKE :: "'a::len word" where
  "CRB_START_INVOKE = push_bit 0 1"

definition CRB_CANCEL_INVOKE :: "'a::len word" where
  "CRB_CANCEL_INVOKE = push_bit 0 1"

text \<open>
  Modelled from the spec: the vendor id of the interface-identification register.
  \<^verbatim>\<open>PCI_VENDOR_ID_IBM\<close> comes from \<^verbatim>\<open>hw/pci/pci_ids.h\<close>, which is not among the
  sources; no property below depends on its value.
\<close>

definition PCI_VENDOR_ID_IBM :: "32 word" where
  "PCI_VENDOR_ID_IBM = 0x1014"

text \<open>
  \<^verbatim>\<open>CRBState\<close>: the outstanding-command slot \<^verbatim>\<open>cmd\<close>, the register file, the
  contents of the command RAM region \<^verbatim>\<open>cmdmem\<close> and the negotiated buffer size
  \<^verbatim>\<open>be_buffer_size\<close>. The two fields that the sPAPR device state also has carry the
  prefix \<open>crb_\<close> here.
\<close>

record CRBState =
  crb_cmd :: TPMBackendCmd
  regs :: crb_regs
  cmdmem :: "8 word list"
  crb_be_buffer_size :: "64 word"

text \<open>
  \<^verbatim>\<open>tpm_crb_mmio_write\<close>. The size decoder \<^verbatim>\<open>tpm_cmd_get_size\<close> of
  \<^verbatim>\<open>tpm_util.h\<close> is not among the sources and is an argument.
\<close>

definition tpm_crb_mmio_write ::
  "(8 word list \<Rightarrow> 32 word) \<Rightarrow> CRBState \<Rightarrow> 64 word \<Rightarrow> 64 word \<Rightarrow> 32 word
     \<Rightarrow> CRBState \<times> effect list" where
  "tpm_crb_mmio_write tpm_cmd_get_size s addr val sz =
     (if addr = CRB_ADDR_CTRL_REQ then
        (if val = CRB_CTRL_REQ_CMD_READY then
           (s\<lparr>regs := (regs s)\<lparr>ctrl_sts := ctrl_sts (regs s) AND NOT CRB_CTRL_STS_TPM_IDLE\<rparr>\<rparr>, [])
         else if val = CRB_CTRL_REQ_GO_IDLE then
           (s\<lparr>regs := (regs s)\<lparr>ctrl_sts := ctrl_sts (regs s) OR CRB_CTRL_STS_TPM_IDLE\<rparr>\<rparr>, [])
         else (s, []))
      else if addr = CRB_ADDR_CTRL_CANCEL then
        (if val = CRB_CANCEL_INVOKE \<and> ctrl_start (regs s) AND CRB_START_INVOKE \<noteq> 0 then
           (s, [BackendCancel])
         else (s, []))
      else if addr = CRB_ADDR_CTRL_START then
        (if val = CRB_START_INVOKE \<and> \<not> (ctrl_start (regs s) AND CRB_START_INVOKE \<noteq> 0) then
           (let mem = cmdmem s;
                s1 = s\<lparr>regs := (regs s)\<lparr>ctrl_start := ctrl_start (regs s) OR CRB_START_INVOKE\<rparr>\<rparr>;
                s2 = s1\<lparr>crb_cmd :=
                       \<lparr>locty = 0,
                        in_ptr = PTR_cmdmem,
                        in_len = ucast (min (ucast (tpm_cmd_get_size mem)) (crb_be_buffer_size s1)),
                        out_ptr = PTR_cmdmem,
                        out_len = ucast (crb_be_buffer_size s1)\<rparr>\<rparr>
            in (s2, [BackendDeliver (crb_cmd s2)]))
         else (s, []))
      else if addr = CRB_ADDR_LOC_CTRL then
        (if val = CRB_LOC_CTRL_RESET_ESTABLISHMENT_BIT then (s, [])
         else if val = CRB_LOC_CTRL_RELINQUISH then (s, [])
         else if val = CRB_LOC_CTRL_REQUEST_ACCESS then
           (s\<lparr>regs := (regs s)
                 \<lparr>loc_sts := CRB_LOC_STS_GRANTED,
                  loc_state := CRB_LOC_STATE_LOC_ASSIGNED OR CRB_LOC_STATE_TPM_REG_VALID_STS\<rparr>\<rparr>, [])
         else (s, []))
      else (s, []))"

text \<open>
  \<^verbatim>\<open>tpm_crb_reset\<close>; \<^verbatim>\<open>be_size\<close> is what \<^verbatim>\<open>tpm_backend_get_buffer_size\<close> returns.
  The compound literal zeroes every field it does not name.
\<close>

definition tpm_crb_reset :: "64 word \<Rightarrow> CRBState \<Rightarrow> CRBState \<times> effect list" where
  "tpm_crb_reset be_size s =
     (let s1 = s\<lparr>crb_be_buffer_size := min be_size CRB_CTRL_CMD_SIZE\<rparr>;
          s2 = s1\<lparr>regs :=
                 \<lparr>loc_state = 0, reserved1 = 0, loc_ctrl = 0, loc_sts = 0,
                  reserved2 = replicate 32 0,
                  intf_id_low =
                    CRB_INTF_TYPE_CRB_ACTIVE OR CRB_INTF_VERSION_CRB OR
                    CRB_INTF_CAP_LOCALITY_0_ONLY OR CRB_INTF_CAP_IDLE_FAST OR
                    CRB_INTF_CAP_XFER_SIZE_64 OR CRB_INTF_CAP_FIFO_NOT_SUPPORTED OR
                    CRB_INTF_CAP_CRB_SUPPORTED OR CRB_INTF_IF_SELECTOR_CRB OR
                    CRB_INTF_IF_SELECTOR_UNLOCKED OR push_bit 24 1,
                  intf_id_high = PCI_VENDOR_ID_IBM OR push_bit 16 1,
                  ctrl_ext_low = 0, ctrl_ext_high = 0,
                  ctrl_req = 0, ctrl_sts = 0, ctrl_cancel = 0, ctrl_start = 0,
                  ctrl_int_enable = 0, ctrl_int_sts = 0,
                  ctrl_cmd_size = ucast CRB_CTRL_CMD_SIZE,
                  ctrl_cmd_pa_low = ucast (TPM_CRB_ADDR_BASE + of_nat sizeof_crb_regs),
                  ctrl_cmd_pa_high = 0,
                  ctrl_rsp_size = ucast CRB_CTRL_CMD_SIZE,
                  ctrl_rsp_pa_low = ucast (TPM_CRB_ADDR_BASE + of_nat sizeof_crb_regs),
                  ctrl_rsp_pa_high = 0,
                  reserved3 = replicate 0x10 0,
                  data_buffer = replicate (0x1000 - 0x80) 0\<rparr>\<rparr>
      in (s2, [BackendReset, BackendStartup (crb_be_buffer_size s2)]))"

text \<open>\<^verbatim>\<open>tpm_crb_request_completed\<close>, the backend's completion callback.\<close>

definition tpm_crb_request_completed :: "CRBState \<Rightarrow> int \<Rightarrow> CRBState" where
  "tpm_crb_request_completed s ret =
     (let s1 = s\<lparr>regs := (regs s)\<lparr>ctrl_start := ctrl_start (regs s) AND NOT CRB_START_INVOKE\<rparr>\<rparr>
      in if ret \<noteq> 0 then
           s1\<lparr>regs := (regs s1)\<lparr>ctrl_sts := ctrl_sts (regs s1) OR CRB_CTRL_STS_TPM_STS\<rparr>\<rparr>
         else s1)"

section \<open>The sPAPR vTPM device (CRQ transport)\<close>

definition SPAPR_VTPM_VALID_INIT_CRQ_COMMAND :: "8 word" where
  "SPAPR_VTPM_VALID_INIT_CRQ_COMMAND = 0xC0"

definition SPAPR_VTPM_VALID_COMMAND :: "8 word" where
  "SPAPR_VTPM_VALID_COMMAND = 0x80"

definition SPAPR_VTPM_MSG_RESULT :: "8 word" where
  "SPAPR_VTPM_MSG_RESULT = 0x80"

definition SPAPR_VTPM_INIT_CRQ_RESULT :: "8 word" where
  "SPAPR_VTPM_INIT_CRQ_RESULT = 0x1"

definition SPAPR_VTPM_INIT_CRQ_COMPLETE_RESULT :: "8 word" where
  "SPAPR_VTPM_INIT_CRQ_COMPLETE_RESULT = 0x2"

definition SPAPR_VTPM_GET_VERSION :: "8 word" where
  "SPAPR_VTPM_GET_VERSION = 0x1"

definition SPAPR_VTPM_TPM_COMMAND :: "8 word" where
  "SPAPR_VTPM_TPM_COMMAND = 0x2"

definition SPAPR_VTPM_GET_RTCE_BUFFER_SIZE :: "8 word" where
  "SPAPR_VTPM_GET_RTCE_BUFFER_SIZE = 0x3"

definition SPAPR_VTPM_PREPARE_TO_SUSPEND :: "8 word" where
  "SPAPR_VTPM_PREPARE_TO_SUSPEND = 0x4"

definition SPAPR_VTPM_VTPM_ERROR :: "8 word" where
  "SPAPR_VTPM_VTPM_ERROR = 0xff"

definition SPAPR_VTPM_ERR_COPY_IN_FAILED :: "32 word" where
  "SPAPR_VTPM_ERR_COPY_IN_FAILED = 0x3"

definition SPAPR_VTPM_ERR_COPY_OUT_FAILED :: "32 word" where
  "SPAPR_VTPM_ERR_COPY_OUT_FAILED = 0x4"

definition SPAPR_VTPM_STATE_NONE :: "8 word" where
  "SPAPR_VTPM_STATE_NONE = 0"

definition SPAPR_VTPM_STATE_EXECUTION :: "8 word" where
  "SPAPR_VTPM_STATE_EXECUTION = 1"

definition SPAPR_VTPM_STATE_COMPLETION :: "8 word" where
  "SPAPR_VTPM_STATE_COMPLETION = 2"

text \<open>
  Modelled from the spec: the size of one virtual-memory page. \<^verbatim>\<open>TARGET_PAGE_SIZE\<close>
  comes from the target's CPU headers, which are not among the sources; the spec's
  scenarios use a page of 4096 bytes.
\<close>

definition TARGET_PAGE_SIZE :: "64 word" where
  "TARGET_PAGE_SIZE = 4096"

definition MAX_BUFFER_SIZE :: "64 word" where
  "MAX_BUFFER_SIZE = TARGET_PAGE_SIZE"

text \<open>
  Modelled from the spec: \<open>round_up(n, d)\<close> for a power of two \<open>d\<close>. The macro
  \<^verbatim>\<open>ROUND_UP\<close> comes from \<^verbatim>\<open>qemu/osdep.h\<close>, which is not among the sources; it adds
  \<open>d - 1\<close> and masks the low bits, in \<^verbatim>\<open>size_t\<close>.
\<close>

definition ROUND_UP :: "64 word \<Rightarrow> 64 word \<Rightarrow> 64 word" where
  "ROUND_UP n d = (n + d - 1) AND - d"

text \<open>
  Modelled from the spec: the transport's return codes, \<open>success\<close> and \<open>busy\<close>.
  \<^verbatim>\<open>H_SUCCESS\<close> and \<^verbatim>\<open>H_BUSY\<close> come from \<^verbatim>\<open>hw/ppc/spapr.h\<close>, which is not among
  the sources; the code tests a return code both as \<^verbatim>\<open>rc == H_SUCCESS\<close> and as
  \<^verbatim>\<open>if (rc)\<close>, so success is 0.
\<close>

definition H_SUCCESS :: int where
  "H_SUCCESS = 0"

definition H_BUSY :: int where
  "H_BUSY = 1"

text \<open>
  Modelled from the spec: the backend's version, one of unspecified, 1.2 and 2.0. The
  enum \<^verbatim>\<open>TPMVersion\<close> comes from \<^verbatim>\<open>sysemu/tpm.h\<close>, which is not among the sources.
\<close>

datatype TPMVersion = TPM_VERSION_UNSPEC | TPM_VERSION_1_2 | TPM_VERSION_2_0

text \<open>
  \<^verbatim>\<open>SPAPRvTPMState\<close>. The scratch buffer is the array
  \<^verbatim>\<open>unsigned char buffer[MAX_BUFFER_SIZE]\<close>: a list whose length is the size of the
  array.
\<close>

record SPAPRvTPMState =
  crq :: VioCRQ
  state :: "8 word"
  buffer :: "8 word list"
  cmd :: TPMBackendCmd
  be_tpm_version :: TPMVersion
  be_buffer_size :: "64 word"
  run_bh_func :: bool

text \<open>
  A transfer of more bytes than the scratch buffer holds runs past the end of the array.
  C gives such an execution no meaning; the model ends it with an error.
\<close>

datatype error = BufferOverrun

text \<open>\<^verbatim>\<open>tpm_spapr_tpm_send\<close>; \<^verbatim>\<open>sizeof(s->buffer)\<close> is the length of the array.\<close>

definition tpm_spapr_tpm_send ::
  "(8 word list \<Rightarrow> 32 word) \<Rightarrow> SPAPRvTPMState \<Rightarrow> SPAPRvTPMState \<times> effect list" where
  "tpm_spapr_tpm_send tpm_cmd_get_size s =
     (let s1 = s\<lparr>state := SPAPR_VTPM_STATE_EXECUTION\<rparr>;
          s2 = s1\<lparr>cmd :=
                 \<lparr>locty = 0,
                  in_ptr = PTR_buffer,
                  in_len = ucast (min (ucast (tpm_cmd_get_size (buffer s1)))
                                      (of_nat (length (buffer s1)) :: 64 word)),
                  out_ptr = PTR_buffer,
                  out_len = of_nat (length (buffer s1))\<rparr>\<rparr>
      in (s2, [BackendDeliver (cmd s2)]))"

text \<open>
  \<^verbatim>\<open>tpm_spapr_process_cmd\<close>. \<^verbatim>\<open>dma_in\<close> is what \<^verbatim>\<open>spapr_vio_dma_read\<close> does: its
  return code and the bytes it stored at the start of the scratch buffer, at most
  \<^verbatim>\<open>be_buffer_size\<close> of them. A read that succeeds has stored all
  \<^verbatim>\<open>be_buffer_size\<close> bytes; a read that fails may have stored fewer, or none.
\<close>

definition tpm_spapr_process_cmd ::
  "(8 word list \<Rightarrow> 32 word) \<Rightarrow> int \<times> 8 word list \<Rightarrow> SPAPRvTPMState \<Rightarrow> 64 word
     \<Rightarrow> error + (int \<times> SPAPRvTPMState \<times> effect list)" where
  "tpm_spapr_process_cmd tpm_cmd_get_size dma_in s dataptr =
     (let rc = fst dma_in;
          got = take (unat (be_buffer_size s)) (snd dma_in);
          stored = (if rc = H_SUCCESS then unat (be_buffer_size s) else length got)
      in
      if length (buffer s) < stored then Inl BufferOverrun
      else
        let s1 = s\<lparr>buffer := got @ drop (length got) (buffer s)\<rparr>;
            e1 = DmaRead dataptr (be_buffer_size s) #
                 (if rc \<noteq> 0 then [ErrorReport ''tpm_spapr_got_payload: DMA read failure !'']
                  else []);
            (s2, e2) = tpm_spapr_tpm_send tpm_cmd_get_size s1
        in Inr (rc, s2, e1 @ e2))"

text \<open>
  \<^verbatim>\<open>tpm_spapr_do_crq\<close>. \<^verbatim>\<open>crq_data\<close> is the incoming 16-byte message, seen through
  the union as a \<^verbatim>\<open>VioCRQ\<close>; \<^verbatim>\<open>local_crq\<close> is the copy that the responses are built
  in. The result is the return code, the new state and the calls made.
\<close>

definition tpm_spapr_do_crq ::
  "(8 word list \<Rightarrow> 32 word) \<Rightarrow> int \<times> 8 word list \<Rightarrow> SPAPRvTPMState \<Rightarrow> VioCRQ
     \<Rightarrow> error + (int \<times> SPAPRvTPMState \<times> effect list)" where
  "tpm_spapr_do_crq tpm_cmd_get_size dma_in s crq_data =
     (let local_crq = crq_data;
          zeroed = \<lparr>valid = 0, msg = 0, len = (0, 0), data = (0, 0, 0, 0), reserved = 0\<rparr>
      in
      if valid local_crq = SPAPR_VTPM_VALID_INIT_CRQ_COMMAND then
        (if msg local_crq = SPAPR_VTPM_INIT_CRQ_RESULT then
           Inr (H_SUCCESS, s,
                [SendCrq (zeroed\<lparr>valid := SPAPR_VTPM_VALID_INIT_CRQ_COMMAND,
                                  msg := SPAPR_VTPM_INIT_CRQ_RESULT\<rparr>)])
         else if msg local_crq = SPAPR_VTPM_INIT_CRQ_COMPLETE_RESULT then
           Inr (H_SUCCESS, s,
                [SendCrq (zeroed\<lparr>valid := SPAPR_VTPM_VALID_INIT_CRQ_COMMAND,
                                  msg := SPAPR_VTPM_INIT_CRQ_COMPLETE_RESULT\<rparr>)])
         else Inr (H_SUCCESS, s, []))
      else if valid local_crq = SPAPR_VTPM_VALID_COMMAND then
        (if msg local_crq = SPAPR_VTPM_TPM_COMMAND then
           (if state s = SPAPR_VTPM_STATE_EXECUTION then Inr (H_BUSY, s, [])
            else
              let s1 = s\<lparr>crq := crq_data\<rparr>
              in case tpm_spapr_process_cmd tpm_cmd_get_size dma_in s1
                        (ucast (be32_to_cpu (data (crq s1)))) of
                   Inl e \<Rightarrow> Inl e
                 | Inr (rc, s2, effs) \<Rightarrow>
                     if rc = H_SUCCESS then
                       Inr (H_SUCCESS, s2\<lparr>crq := (crq s2)\<lparr>valid := 0\<rparr>\<rparr>, effs)
                     else
                       Inr (H_SUCCESS, s2,
                            effs @
                            [SendCrq (local_crq
                               \<lparr>valid := SPAPR_VTPM_MSG_RESULT,
                                msg := SPAPR_VTPM_VTPM_ERROR,
                                data := cpu_to_be32 SPAPR_VTPM_ERR_COPY_IN_FAILED\<rparr>)]))
         else if msg local_crq = SPAPR_VTPM_GET_RTCE_BUFFER_SIZE then
           Inr (H_SUCCESS, s,
                [SendCrq (local_crq
                   \<lparr>msg := msg local_crq OR SPAPR_VTPM_MSG_RESULT,
                    len := cpu_to_be16 (ucast (be_buffer_size s))\<rparr>)])
         else if msg local_crq = SPAPR_VTPM_GET_VERSION then
           Inr (H_SUCCESS, s,
                [SendCrq (local_crq
                   \<lparr>msg := msg local_crq OR SPAPR_VTPM_MSG_RESULT,
                    len := cpu_to_be16 0,
                    data := (case be_tpm_version s of
                               TPM_VERSION_UNSPEC \<Rightarrow> cpu_to_be32 0
                             | TPM_VERSION_1_2 \<Rightarrow> cpu_to_be32 1
                             | TPM_VERSION_2_0 \<Rightarrow> cpu_to_be32 2)\<rparr>)])
         else if msg local_crq = SPAPR_VTPM_PREPARE_TO_SUSPEND then
           Inr (H_SUCCESS, s,
                [SendCrq (local_crq\<lparr>msg := msg local_crq OR SPAPR_VTPM_MSG_RESULT\<rparr>)])
         else Inr (H_SUCCESS, s, []))
      else Inr (H_SUCCESS, s, []))"

text \<open>
  \<^verbatim>\<open>_tpm_spapr_request_completed\<close> (an Isabelle name cannot start with an underscore).
  \<^verbatim>\<open>dma_rc\<close> is what \<^verbatim>\<open>spapr_vio_dma_write\<close> returns, \<^verbatim>\<open>send_rc\<close> what
  \<^verbatim>\<open>spapr_vio_send_crq\<close> returns.
\<close>

definition u_tpm_spapr_request_completed ::
  "(8 word list \<Rightarrow> 32 word) \<Rightarrow> int \<Rightarrow> int \<Rightarrow> SPAPRvTPMState
     \<Rightarrow> error + (SPAPRvTPMState \<times> effect list)" where
  "u_tpm_spapr_request_completed tpm_cmd_get_size dma_rc send_rc s =
     (let s1 = s\<lparr>state := SPAPR_VTPM_STATE_COMPLETION\<rparr>;
          n = (ucast (min (ucast (tpm_cmd_get_size (buffer s1))) (be_buffer_size s1)) :: 32 word)
      in
      if length (buffer s1) < unat n then Inl BufferOverrun
      else
        let e1 = [DmaWrite (ucast (be32_to_cpu (data (crq s1)))) (take (unat n) (buffer s1))];
            s2 = s1\<lparr>crq := (crq s1)\<lparr>valid := SPAPR_VTPM_MSG_RESULT\<rparr>\<rparr>;
            (s3, e2) =
              (if dma_rc = H_SUCCESS then
                 (s2\<lparr>crq := (crq s2)
                        \<lparr>msg := SPAPR_VTPM_TPM_COMMAND OR SPAPR_VTPM_MSG_RESULT,
                         len := cpu_to_be16 (ucast n)\<rparr>\<rparr>, [])
               else
                 (s2\<lparr>crq := (crq s2)
                        \<lparr>msg := SPAPR_VTPM_VTPM_ERROR,
                         len := cpu_to_be16 0,
                         data := cpu_to_be32 SPAPR_VTPM_ERR_COPY_OUT_FAILED\<rparr>\<rparr>,
                  [ErrorReport ''_tpm_spapr_request_completed: DMA write failure'']));
            e3 = SendCrq (crq s3) #
                 (if send_rc \<noteq> 0 then
                    [ErrorReport ''_tpm_spapr_request_completed: Error sending response'']
                  else [])
        in Inr (s3, e1 @ e2 @ e3))"

text \<open>\<^verbatim>\<open>tpm_spapr_request_completed\<close>, the callback registered with the backend.\<close>

definition tpm_spapr_request_completed ::
  "(8 word list \<Rightarrow> 32 word) \<Rightarrow> int \<Rightarrow> int \<Rightarrow> SPAPRvTPMState
     \<Rightarrow> error + (SPAPRvTPMState \<times> effect list)" where
  "tpm_spapr_request_completed tpm_cmd_get_size dma_rc send_rc s =
     u_tpm_spapr_request_completed tpm_cmd_get_size dma_rc send_rc s"

text \<open>
  \<^verbatim>\<open>tpm_spapr_reset\<close>; \<^verbatim>\<open>be_version\<close> and \<^verbatim>\<open>be_size\<close> are what
  \<^verbatim>\<open>tpm_backend_get_tpm_version\<close> and \<^verbatim>\<open>tpm_backend_get_buffer_size\<close> return, and
  \<^verbatim>\<open>tpm_spapr_do_startup_tpm\<close> is the call of \<^verbatim>\<open>tpm_backend_startup_tpm\<close>.
\<close>

definition tpm_spapr_reset ::
  "TPMVersion \<Rightarrow> 64 word \<Rightarrow> SPAPRvTPMState \<Rightarrow> SPAPRvTPMState \<times> effect list" where
  "tpm_spapr_reset be_version be_size s =
     (let s1 = s\<lparr>state := SPAPR_VTPM_STATE_NONE\<rparr>;
          s2 = s1\<lparr>be_tpm_version := be_version\<rparr>;
          s3 = s2\<lparr>be_buffer_size :=
                     max (ROUND_UP be_size TARGET_PAGE_SIZE) (of_nat (length (buffer s2)))\<rparr>
      in (s3, [BackendReset, BackendStartup (be_buffer_size s3)]))"

text \<open>
  \<^verbatim>\<open>tpm_spapr_get_version\<close>; the arguments are what \<^verbatim>\<open>tpm_backend_had_startup_error\<close>
  and \<^verbatim>\<open>tpm_backend_get_tpm_version\<close> return.
\<close>

definition tpm_spapr_get_version :: "bool \<Rightarrow> TPMVersion \<Rightarrow> TPMVersion" where
  "tpm_spapr_get_version had_startup_error be_version =
     (if had_startup_error then TPM_VERSION_UNSPEC else be_version)"

text \<open>
  \<^verbatim>\<open>tpm_spapr_pre_save\<close>; \<^verbatim>\<open>completed\<close> is what \<^verbatim>\<open>tpm_backend_wait_cmd_completed\<close>
  returns.
\<close>

definition tpm_spapr_pre_save :: "bool \<Rightarrow> SPAPRvTPMState \<Rightarrow> SPAPRvTPMState \<times> int" where
  "tpm_spapr_pre_save completed s = (s\<lparr>run_bh_func := completed\<rparr>, 0)"

text \<open>\<^verbatim>\<open>tpm_spapr_post_load\<close>.\<close>

definition tpm_spapr_post_load ::
  "(8 word list \<Rightarrow> 32 word) \<Rightarrow> int \<Rightarrow> int \<Rightarrow> SPAPRvTPMState
     \<Rightarrow> error + (int \<times> SPAPRvTPMState \<times> effect list)" where
  "tpm_spapr_post_load tpm_cmd_get_size dma_rc send_rc s =
     (if run_bh_func s then
        (case u_tpm_spapr_request_completed tpm_cmd_get_size dma_rc send_rc s of
           Inl e \<Rightarrow> Inl e
         | Inr (s', effs) \<Rightarrow> Inr (0, s', effs))
      else Inr (0, s, []))"

text \<open>
  \<^verbatim>\<open>vmstate_spapr_vtpm\<close>: the fields of the device state that a snapshot carries
  (\<^verbatim>\<open>crq.raw\<close>, \<^verbatim>\<open>state\<close>, \<^verbatim>\<open>buffer\<close>, \<^verbatim>\<open>run_bh_func\<close>; the generic VIO fields
  of \<^verbatim>\<open>vdev\<close> are outside the model). Loading overwrites these fields of the
  destination's device and leaves the others as the destination's reset set them.
\<close>

type_synonym vmstate = "VioCRQ \<times> 8 word \<times> 8 word list \<times> bool"

definition vmstate_save :: "SPAPRvTPMState \<Rightarrow> vmstate" where
  "vmstate_save s = (crq s, state s, buffer s, run_bh_func s)"

fun vmstate_load :: "vmstate \<Rightarrow> SPAPRvTPMState \<Rightarrow> SPAPRvTPMState" where
  "vmstate_load (c, st, b, r) d = d\<lparr>crq := c, state := st, buffer := b, run_bh_func := r\<rparr>"

text \<open>
  Modelled from the spec: \<^verbatim>\<open>tpm_backend_wait_cmd_completed\<close>, the backend's
  \<open>WaitCommandCompleted() -> bool\<close> (migration drain), is not among the sources. The
  spec has it block until the backend confirms that no command is mid-execution, and
  report whether a completed-but-undelivered response exists. The backend is idle,
  executing a command, or holds a completed response that it has not delivered; the
  wait lets an executing command finish.
\<close>

datatype backend_status = BE_IDLE | BE_EXECUTING | BE_UNDELIVERED

fun tpm_backend_wait_cmd_completed :: "backend_status \<Rightarrow> backend_status \<times> bool" where
  "tpm_backend_wait_cmd_completed BE_IDLE = (BE_IDLE, False)"
| "tpm_backend_wait_cmd_completed BE_EXECUTING = (BE_UNDELIVERED, True)"
| "tpm_backend_wait_cmd_completed BE_UNDELIVERED = (BE_UNDELIVERED, True)"

section \<open>Counting calls, and runs of the CRQ device\<close>

fun deliveries :: "effect list \<Rightarrow> nat" where
  "deliveries [] = 0"
| "deliveries (BackendDeliver c # es) = Suc (deliveries es)"
| "deliveries (e # es) = deliveries es"

fun dma_writes :: "effect list \<Rightarrow> nat" where
  "dma_writes [] = 0"
| "dma_writes (DmaWrite a bs # es) = Suc (dma_writes es)"
| "dma_writes (e # es) = dma_writes es"

fun crq_sends :: "effect list \<Rightarrow> nat" where
  "crq_sends [] = 0"
| "crq_sends (SendCrq c # es) = Suc (crq_sends es)"
| "crq_sends (e # es) = crq_sends es"

text \<open>
  A run of the device: the guest dispatches messages and the backend calls back. The
  second component counts the commands that the backend holds, submitted and not yet
  completed; the backend calls back only for a command it holds.
\<close>

datatype crq_event = Dispatch VioCRQ "int \<times> 8 word list" | Completion int int

fun crq_step ::
  "(8 word list \<Rightarrow> 32 word) \<Rightarrow> SPAPRvTPMState \<times> nat \<Rightarrow> crq_event
     \<Rightarrow> error + (SPAPRvTPMState \<times> nat)" where
  "crq_step gs (s, n) (Dispatch c dma_in) =
     (case tpm_spapr_do_crq gs dma_in s c of
        Inl e \<Rightarrow> Inl e
      | Inr (rc, s', effs) \<Rightarrow> Inr (s', n + deliveries effs))"
| "crq_step gs (s, n) (Completion dma_rc send_rc) =
     (if n = 0 then Inr (s, n)
      else case tpm_spapr_request_completed gs dma_rc send_rc s of
             Inl e \<Rightarrow> Inl e
           | Inr (s', effs) \<Rightarrow> Inr (s', n - 1))"

fun crq_run ::
  "(8 word list \<Rightarrow> 32 word) \<Rightarrow> SPAPRvTPMState \<times> nat \<Rightarrow> crq_event list
     \<Rightarrow> error + (SPAPRvTPMState \<times> nat)" where
  "crq_run gs c [] = Inr c"
| "crq_run gs c (ev # evs) =
     (case crq_step gs c ev of Inl e \<Rightarrow> Inl e | Inr c' \<Rightarrow> crq_run gs c' evs)"

section \<open>Concrete devices and messages\<close>

definition crb_zero_regs :: crb_regs where
  "crb_zero_regs =
     \<lparr>loc_state = 0, reserved1 = 0, loc_ctrl = 0, loc_sts = 0, reserved2 = replicate 32 0,
      intf_id_low = 0, intf_id_high = 0, ctrl_ext_low = 0, ctrl_ext_high = 0,
      ctrl_req = 0, ctrl_sts = 0, ctrl_cancel = 0, ctrl_start = 0,
      ctrl_int_enable = 0, ctrl_int_sts = 0, ctrl_cmd_size = 0, ctrl_cmd_pa_low = 0,
      ctrl_cmd_pa_high = 0, ctrl_rsp_size = 0, ctrl_rsp_pa_low = 0, ctrl_rsp_pa_high = 0,
      reserved3 = replicate 0x10 0, data_buffer = replicate (0x1000 - 0x80) 0\<rparr>"

definition null_cmd :: TPMBackendCmd where
  "null_cmd = \<lparr>locty = 0, in_ptr = NULL_PTR, in_len = 0, out_ptr = NULL_PTR, out_len = 0\<rparr>"

text \<open>A CRB device with every field zero, and the same device after a reset and a start.\<close>

definition crb_zero_state :: CRBState where
  "crb_zero_state =
     \<lparr>crb_cmd = null_cmd, regs = crb_zero_regs, cmdmem = [], crb_be_buffer_size = 0\<rparr>"

definition crb_started :: CRBState where
  "crb_started =
     fst (tpm_crb_mmio_write (\<lambda>b. 10) (fst (tpm_crb_reset 4096 crb_zero_state))
            CRB_ADDR_CTRL_START CRB_START_INVOKE 4)"

text \<open>A vTPM device with a zeroed page as scratch buffer, and a negotiated size.\<close>

definition vtpm_device :: "64 word \<Rightarrow> SPAPRvTPMState" where
  "vtpm_device n =
     \<lparr>crq = \<lparr>valid = 0, msg = 0, len = (0, 0), data = (0, 0, 0, 0), reserved = 0\<rparr>,
      state = SPAPR_VTPM_STATE_NONE,
      buffer = replicate (unat MAX_BUFFER_SIZE) 0,
      cmd = null_cmd,
      be_tpm_version = TPM_VERSION_UNSPEC,
      be_buffer_size = n,
      run_bh_func = False\<rparr>"

text \<open>A command message with opcode \<open>m\<close> whose payload is at guest address \<open>0x1000\<close>.\<close>

definition command_crq :: "8 word \<Rightarrow> VioCRQ" where
  "command_crq m =
     \<lparr>valid = SPAPR_VTPM_VALID_COMMAND, msg = m, len = cpu_to_be16 10,
      data = cpu_to_be32 0x1000, reserved = 0\<rparr>"

text \<open>A device of negotiated size 4096 while a command, saved in \<^verbatim>\<open>crq\<close>, is executing.\<close>

definition vtpm_executing :: SPAPRvTPMState where
  "vtpm_executing =
     (vtpm_device 4096)\<lparr>crq := command_crq SPAPR_VTPM_TPM_COMMAND,
                        state := SPAPR_VTPM_STATE_EXECUTION\<rparr>"

section \<open>Properties of the CRB interface\<close>

lemma CRB_CTRL_CMD_SIZE_eq: "CRB_CTRL_CMD_SIZE = 0"
  by (simp add: CRB_CTRL_CMD_SIZE_def TPM_CRB_ADDR_SIZE_def sizeof_crb_regs_def)

lemma CRB_START_INVOKE_eq: "CRB_START_INVOKE = 1"
  by (simp add: CRB_START_INVOKE_def)

lemma start_bit_set: "(x OR 1) AND 1 \<noteq> (0 :: 32 word)"
  by (simp add: and_one_eq mod_2_eq_odd even_or_iff)

lemma start_bit_clear: "(x AND - 2) AND 1 = (0 :: 32 word)"
  by (simp add: and_one_eq mod_2_eq_odd even_and_iff)

lemma crb_started_start_bit: "ctrl_start (regs crb_started) AND CRB_START_INVOKE \<noteq> 0"
  by (simp add: crb_started_def crb_zero_state_def tpm_crb_reset_def tpm_crb_mmio_write_def
        Let_def CRB_ADDR_CTRL_START_def CRB_ADDR_CTRL_REQ_def CRB_ADDR_CTRL_CANCEL_def
        CRB_START_INVOKE_eq)

text \<open>
  C2. The code at a reset of the CRB device. The negotiated size is the minimum of the
  size the backend reports and \<^verbatim>\<open>CRB_CTRL_CMD_SIZE\<close>, and the two size registers hold
  \<^verbatim>\<open>CRB_CTRL_CMD_SIZE\<close>. But \<^verbatim>\<open>struct crb_regs\<close> counts its \<^verbatim>\<open>data_buffer\<close>, so its
  size is the whole address window and \<^verbatim>\<open>CRB_CTRL_CMD_SIZE\<close> is 0: whatever the backend
  reports, 4096 bytes included, the reset negotiates 0 bytes, both size registers read 0
  instead of the size of the command window, and the command that the next start-invoke
  write submits has input and output length 0.
\<close>

theorem tpm_crb_reset_zero_window:
  "crb_be_buffer_size (fst (tpm_crb_reset be_size s)) =
     min be_size (TPM_CRB_ADDR_SIZE - of_nat sizeof_crb_regs)
   \<and> of_nat sizeof_crb_regs = TPM_CRB_ADDR_SIZE
   \<and> crb_be_buffer_size (fst (tpm_crb_reset be_size s)) = 0
   \<and> ctrl_cmd_size (regs (fst (tpm_crb_reset be_size s))) = 0
   \<and> ctrl_rsp_size (regs (fst (tpm_crb_reset be_size s))) = 0
   \<and> snd (tpm_crb_reset be_size s) = [BackendReset, BackendStartup 0]
   \<and> crb_be_buffer_size (fst (tpm_crb_reset 4096 crb_zero_state)) \<noteq> 3840
   \<and> ctrl_cmd_size (regs (fst (tpm_crb_reset 4096 crb_zero_state))) \<noteq> 3840
   \<and> ctrl_rsp_size (regs (fst (tpm_crb_reset 4096 crb_zero_state))) \<noteq> 3840
   \<and> snd (tpm_crb_mmio_write gs (fst (tpm_crb_reset be_size s))
             CRB_ADDR_CTRL_START CRB_START_INVOKE sz) =
       [BackendDeliver \<lparr>locty = 0, in_ptr = PTR_cmdmem, in_len = 0,
                        out_ptr = PTR_cmdmem, out_len = 0\<rparr>]"
  by (simp add: tpm_crb_reset_def tpm_crb_mmio_write_def Let_def CRB_CTRL_CMD_SIZE_eq
        CRB_CTRL_CMD_SIZE_def TPM_CRB_ADDR_SIZE_def sizeof_crb_regs_def
        CRB_ADDR_CTRL_START_def CRB_ADDR_CTRL_REQ_def CRB_ADDR_CTRL_CANCEL_def
        CRB_START_INVOKE_eq)

text \<open>
  C4. When the start bit is set, a write of start-invoke to the control-start register
  changes nothing and submits nothing. From any state, two such writes in a row leave
  the device in the state the first write produced, and submit one command between them
  if the start bit was clear and none if a command was already started.
\<close>

theorem tpm_crb_start_idempotent:
  "(ctrl_start (regs s) AND CRB_START_INVOKE \<noteq> 0 \<longrightarrow>
      tpm_crb_mmio_write gs s CRB_ADDR_CTRL_START CRB_START_INVOKE sz = (s, []))
   \<and> (case tpm_crb_mmio_write gs s CRB_ADDR_CTRL_START CRB_START_INVOKE sz of (s1, e1) \<Rightarrow>
        ctrl_start (regs s1) AND CRB_START_INVOKE \<noteq> 0
        \<and> tpm_crb_mmio_write gs s1 CRB_ADDR_CTRL_START CRB_START_INVOKE sz' = (s1, [])
        \<and> deliveries
             (e1 @ snd (tpm_crb_mmio_write gs s1 CRB_ADDR_CTRL_START CRB_START_INVOKE sz')) =
            (if ctrl_start (regs s) AND CRB_START_INVOKE = 0 then 1 else 0))"
  by (auto simp add: tpm_crb_mmio_write_def Let_def CRB_ADDR_CTRL_START_def
        CRB_ADDR_CTRL_REQ_def CRB_ADDR_CTRL_CANCEL_def CRB_START_INVOKE_eq start_bit_set)

theorem tpm_crb_start_idempotent_witness:
  "ctrl_start (regs crb_started) AND CRB_START_INVOKE \<noteq> 0
   \<and> tpm_crb_mmio_write (\<lambda>b. 10) crb_started CRB_ADDR_CTRL_START CRB_START_INVOKE 4
       = (crb_started, [])"
  using tpm_crb_start_idempotent [of crb_started "\<lambda>b. 10" 4 4] crb_started_start_bit
  by simp

text \<open>
  C9, as amended. The completion callback clears the start bit, sets the TPM-status error
  bit of control-status exactly when the backend result is nonzero, and changes nothing
  else. No MMIO write clears the start bit: while it is set, every write leaves it set,
  a cancel-invoke write only forwards a cancel to the backend, and a start-invoke write
  is not accepted.
\<close>

theorem tpm_crb_request_completed_frame:
  "tpm_crb_request_completed s ret =
     s\<lparr>regs := (regs s)
          \<lparr>ctrl_sts := (if ret \<noteq> 0 then ctrl_sts (regs s) OR CRB_CTRL_STS_TPM_STS
                        else ctrl_sts (regs s)),
           ctrl_start := ctrl_start (regs s) AND NOT CRB_START_INVOKE\<rparr>\<rparr>
   \<and> ctrl_start (regs (tpm_crb_request_completed s ret)) AND CRB_START_INVOKE = 0
   \<and> (ctrl_start (regs s) AND CRB_START_INVOKE \<noteq> 0 \<longrightarrow>
        ctrl_start (regs (fst (tpm_crb_mmio_write gs s addr val sz))) AND CRB_START_INVOKE \<noteq> 0
        \<and> tpm_crb_mmio_write gs s CRB_ADDR_CTRL_CANCEL CRB_CANCEL_INVOKE sz = (s, [BackendCancel])
        \<and> tpm_crb_mmio_write gs s CRB_ADDR_CTRL_START CRB_START_INVOKE sz = (s, []))"
  by (auto simp add: tpm_crb_request_completed_def tpm_crb_mmio_write_def Let_def
        CRB_ADDR_CTRL_START_def CRB_ADDR_CTRL_REQ_def CRB_ADDR_CTRL_CANCEL_def
        CRB_ADDR_LOC_CTRL_def CRB_START_INVOKE_eq CRB_CANCEL_INVOKE_def start_bit_clear)

theorem tpm_crb_request_completed_frame_witness:
  "ctrl_start (regs crb_started) AND CRB_START_INVOKE \<noteq> 0
   \<and> tpm_crb_mmio_write (\<lambda>b. 10) crb_started CRB_ADDR_CTRL_CANCEL CRB_CANCEL_INVOKE 4
       = (crb_started, [BackendCancel])
   \<and> ctrl_start (regs (tpm_crb_request_completed crb_started 0)) AND CRB_START_INVOKE = 0"
  using tpm_crb_request_completed_frame
          [of crb_started 0 "\<lambda>b. 10" CRB_ADDR_CTRL_CANCEL CRB_CANCEL_INVOKE 4]
    crb_started_start_bit
  by (simp add: CRB_START_INVOKE_eq start_bit_clear)

text \<open>
  C9 as stated fails: the completion callback is not the only operation that clears the
  start bit. A device reset reinitialises the register file; on a device with a started
  command it clears the start bit, and the next start-invoke write submits a command
  although no completion callback has run.
\<close>

theorem tpm_crb_reset_clears_start_counterexample:
  "ctrl_start (regs crb_started) AND CRB_START_INVOKE \<noteq> 0
   \<and> ctrl_start (regs (fst (tpm_crb_reset 4096 crb_started))) AND CRB_START_INVOKE = 0
   \<and> deliveries (snd (tpm_crb_mmio_write (\<lambda>b. 10) (fst (tpm_crb_reset 4096 crb_started))
         CRB_ADDR_CTRL_START CRB_START_INVOKE 4)) = 1"
  using crb_started_start_bit
  by (simp add: tpm_crb_reset_def tpm_crb_mmio_write_def
        Let_def CRB_ADDR_CTRL_START_def CRB_ADDR_CTRL_REQ_def CRB_ADDR_CTRL_CANCEL_def
        CRB_START_INVOKE_eq)

section \<open>Properties of the sPAPR vTPM device\<close>

subsection \<open>Byte order and sizes\<close>

lemma be16_roundtrip: "be16_to_cpu (cpu_to_be16 v) = v"
  unfolding cpu_to_be16_def be16_to_cpu.simps
  by (rule bit_word_eqI) (auto simp add: bit_simps)

lemma be32_roundtrip: "be32_to_cpu (cpu_to_be32 v) = v"
  unfolding cpu_to_be32_def be32_to_cpu.simps
proof (rule bit_word_eqI)
  fix n assume n: "n < LENGTH(32)"
  consider "n < 8" | "8 \<le> n" "n < 16" | "16 \<le> n" "n < 24" | "24 \<le> n"
    by linarith
  then show "bit (push_bit 24 (ucast (ucast (drop_bit 24 v) :: 8 word)) OR
          push_bit 16 (ucast (ucast (drop_bit 16 v) :: 8 word)) OR
          push_bit 8 (ucast (ucast (drop_bit 8 v) :: 8 word)) OR
          ucast (ucast v :: 8 word) :: 32 word) n = bit v n"
    using n by cases (auto simp add: bit_simps)
qed

lemma be16_zero: "be16_to_cpu (cpu_to_be16 0) = 0"
  by (simp add: cpu_to_be16_def)

lemma unat_ucast_64_16: "unat (ucast (w :: 64 word) :: 16 word) = unat w mod 65536"
  by (simp add: unsigned_ucast_eq take_bit_eq_mod)

lemma unat_min_ucast_32:
  "unat (ucast (min (ucast (g :: 32 word)) (B :: 64 word)) :: 32 word) = unat (min (ucast g) B)"
proof -
  have "min (ucast g) B \<le> (ucast g :: 64 word)" by simp
  then have "unat (min (ucast g) B) \<le> unat (ucast g :: 64 word)"
    by (simp only: word_le_nat_alt)
  also have "\<dots> = unat g"
    using unsigned_less [of g, where 'a = nat] by (simp add: unsigned_ucast_eq take_bit_eq_mod)
  also have "\<dots> < 2 ^ 32" using unsigned_less [of g, where 'a = nat] by simp
  finally have "unat (min (ucast g) B) < 2 ^ 32" .
  then show ?thesis by (simp add: unsigned_ucast_eq take_bit_eq_mod)
qed

lemma unat_ucast_32_16: "unat (w :: 32 word) \<le> 4096 \<Longrightarrow> unat (ucast w :: 16 word) = unat w"
  by (simp add: unsigned_ucast_eq take_bit_eq_mod)

lemma min_fits:
  "unat (B :: 64 word) \<le> n \<Longrightarrow> unat (min (ucast (g :: 32 word)) B) \<le> n"
proof -
  assume a: "unat B \<le> n"
  have "min (ucast g) B \<le> B" by simp
  then have "unat (min (ucast g) B) \<le> unat B" by (simp only: word_le_nat_alt)
  with a show ?thesis by simp
qed

lemma and_page_split: "(y AND 4095) + (y AND - 4096) = (y :: 64 word)"
proof -
  have "(y AND 4095) AND (y AND NOT 4095) = 0"
    by (simp add: bit_eq_iff bit_simps)
  then have "(y AND 4095) + (y AND NOT 4095) = (y AND 4095) OR (y AND NOT 4095)"
    by (rule disjunctive_add_eq_or)
  also have "\<dots> = y"
    by (auto simp add: bit_eq_iff bit_simps)
  finally show ?thesis by simp
qed

lemma ROUND_UP_page_ge:
  assumes "unat B \<le> 2 ^ 64 - 4096"
  shows "B \<le> ROUND_UP B TARGET_PAGE_SIZE"
proof -
  define y where "y = B + 4095"
  have uy: "unat y = unat B + 4095"
    unfolding y_def using assms by (subst unat_add_lem [THEN iffD1]) simp_all
  have low: "unat (y AND 4095) \<le> 4095"
    using word_and_le1 [of y 4095] by (simp add: word_le_nat_alt)
  have "y AND - 4096 = y - (y AND 4095)"
    using and_page_split [of y] by (simp add: algebra_simps)
  moreover have "y AND 4095 \<le> y" by (rule word_and_le2)
  ultimately have "unat (y AND - 4096) = unat y - unat (y AND 4095)"
    by (simp add: unat_sub)
  with uy low have "unat B \<le> unat (y AND - 4096)" by simp
  moreover have "ROUND_UP B TARGET_PAGE_SIZE = y AND - 4096"
    by (simp add: ROUND_UP_def TARGET_PAGE_SIZE_def y_def add.commute)
  ultimately show ?thesis by (simp add: word_le_nat_alt)
qed

lemmas crq_consts =
  SPAPR_VTPM_VALID_INIT_CRQ_COMMAND_def SPAPR_VTPM_VALID_COMMAND_def SPAPR_VTPM_MSG_RESULT_def
  SPAPR_VTPM_INIT_CRQ_RESULT_def SPAPR_VTPM_INIT_CRQ_COMPLETE_RESULT_def
  SPAPR_VTPM_GET_VERSION_def SPAPR_VTPM_TPM_COMMAND_def SPAPR_VTPM_GET_RTCE_BUFFER_SIZE_def
  SPAPR_VTPM_PREPARE_TO_SUSPEND_def SPAPR_VTPM_VTPM_ERROR_def

subsection \<open>Single steps\<close>

lemma process_cmd_eq:
  "tpm_spapr_process_cmd gs dma_in s p =
     (if length (buffer s) <
           (if fst dma_in = H_SUCCESS then unat (be_buffer_size s)
            else length (take (unat (be_buffer_size s)) (snd dma_in)))
      then Inl BufferOverrun
      else Inr (fst dma_in,
                fst (tpm_spapr_tpm_send gs
                       (s\<lparr>buffer := take (unat (be_buffer_size s)) (snd dma_in) @
                            drop (length (take (unat (be_buffer_size s)) (snd dma_in)))
                              (buffer s)\<rparr>)),
                (DmaRead p (be_buffer_size s) #
                   (if fst dma_in \<noteq> 0
                    then [ErrorReport ''tpm_spapr_got_payload: DMA read failure !'']
                    else [])) @
                snd (tpm_spapr_tpm_send gs
                       (s\<lparr>buffer := take (unat (be_buffer_size s)) (snd dma_in) @
                            drop (length (take (unat (be_buffer_size s)) (snd dma_in)))
                              (buffer s)\<rparr>))))"
  unfolding tpm_spapr_process_cmd_def Let_def split_beta by (rule refl)

lemma tpm_send_eq:
  "tpm_spapr_tpm_send gs s =
     (s\<lparr>state := SPAPR_VTPM_STATE_EXECUTION,
         cmd := \<lparr>locty = 0, in_ptr = PTR_buffer,
                 in_len = ucast (min (ucast (gs (buffer s)))
                                     (of_nat (length (buffer s)) :: 64 word)),
                 out_ptr = PTR_buffer, out_len = of_nat (length (buffer s))\<rparr>\<rparr>,
      [BackendDeliver
         \<lparr>locty = 0, in_ptr = PTR_buffer,
          in_len = ucast (min (ucast (gs (buffer s)))
                              (of_nat (length (buffer s)) :: 64 word)),
          out_ptr = PTR_buffer, out_len = of_nat (length (buffer s))\<rparr>])"
  by (simp add: tpm_spapr_tpm_send_def Let_def)

lemma process_cmd_result:
  assumes "tpm_spapr_process_cmd gs dma_in s p = Inr (rc, s', effs)"
  shows "state s' = SPAPR_VTPM_STATE_EXECUTION \<and> be_buffer_size s' = be_buffer_size s
         \<and> length (buffer s') = length (buffer s) \<and> deliveries effs = 1"
proof -
  let ?got = "take (unat (be_buffer_size s)) (snd dma_in)"
  let ?stored = "if fst dma_in = H_SUCCESS then unat (be_buffer_size s) else length ?got"
  have ok: "\<not> length (buffer s) < ?stored"
    using assms unfolding process_cmd_eq by (cases "length (buffer s) < ?stored") simp_all
  have "length ?got \<le> ?stored" by simp
  with ok have fit: "length ?got \<le> length (buffer s)" by linarith
  from assms ok have s': "s' = fst (tpm_spapr_tpm_send gs
                       (s\<lparr>buffer := ?got @ drop (length ?got) (buffer s)\<rparr>))"
    and effs: "effs = (DmaRead p (be_buffer_size s) #
                   (if fst dma_in \<noteq> 0
                    then [ErrorReport ''tpm_spapr_got_payload: DMA read failure !'']
                    else [])) @
                snd (tpm_spapr_tpm_send gs
                       (s\<lparr>buffer := ?got @ drop (length ?got) (buffer s)\<rparr>))"
    unfolding process_cmd_eq by auto
  from fit have l: "length (?got @ drop (length ?got) (buffer s)) = length (buffer s)"
    by simp
  show ?thesis
    unfolding s' effs tpm_send_eq using l by simp
qed

lemma process_cmd_total:
  assumes "unat (be_buffer_size s) \<le> length (buffer s)"
  shows "\<exists>rc s' effs. tpm_spapr_process_cmd gs dma_in s p = Inr (rc, s', effs)"
proof -
  have "length (take (unat (be_buffer_size s)) (snd dma_in)) \<le> unat (be_buffer_size s)"
    by simp
  with assms show ?thesis
    unfolding process_cmd_eq by simp
qed

lemma do_crq_busy:
  "state s = SPAPR_VTPM_STATE_EXECUTION \<Longrightarrow> valid c = SPAPR_VTPM_VALID_COMMAND \<Longrightarrow>
   msg c = SPAPR_VTPM_TPM_COMMAND \<Longrightarrow>
   tpm_spapr_do_crq gs dma_in s c = Inr (H_BUSY, s, [])"
  by (simp add: tpm_spapr_do_crq_def Let_def crq_consts)

lemma do_crq_tpm_command:
  assumes "valid c = SPAPR_VTPM_VALID_COMMAND" and "msg c = SPAPR_VTPM_TPM_COMMAND"
    and "state s \<noteq> SPAPR_VTPM_STATE_EXECUTION"
  shows "tpm_spapr_do_crq gs dma_in s c =
           (case tpm_spapr_process_cmd gs dma_in (s\<lparr>crq := c\<rparr>)
                   (ucast (be32_to_cpu (data c))) of
              Inl e \<Rightarrow> Inl e
            | Inr (rc, s2, effs) \<Rightarrow>
                if rc = H_SUCCESS then
                  Inr (H_SUCCESS, s2\<lparr>crq := (crq s2)\<lparr>valid := 0\<rparr>\<rparr>, effs)
                else
                  Inr (H_SUCCESS, s2,
                       effs @
                       [SendCrq (c\<lparr>valid := SPAPR_VTPM_MSG_RESULT,
                                   msg := SPAPR_VTPM_VTPM_ERROR,
                                   data := cpu_to_be32 SPAPR_VTPM_ERR_COPY_IN_FAILED\<rparr>)]))"
  using assms by (simp add: tpm_spapr_do_crq_def Let_def crq_consts)

lemma do_crq_other:
  assumes "\<not> (valid c = SPAPR_VTPM_VALID_COMMAND \<and> msg c = SPAPR_VTPM_TPM_COMMAND)"
  shows "\<exists>effs. tpm_spapr_do_crq gs dma_in s c = Inr (H_SUCCESS, s, effs)
                 \<and> deliveries effs = 0"
  using assms by (simp add: tpm_spapr_do_crq_def Let_def crq_consts)

lemma deliveries_append: "deliveries (xs @ ys) = deliveries xs + deliveries ys"
  by (induction xs rule: deliveries.induct) simp_all

lemma do_crq_result:
  assumes "tpm_spapr_do_crq gs dma_in s c = Inr (rc, s', effs)"
  shows "be_buffer_size s' = be_buffer_size s \<and> length (buffer s') = length (buffer s)
         \<and> ((deliveries effs = 0 \<and> state s' = state s) \<or>
             (deliveries effs = 1 \<and> state s \<noteq> SPAPR_VTPM_STATE_EXECUTION
              \<and> state s' = SPAPR_VTPM_STATE_EXECUTION))"
proof (cases "valid c = SPAPR_VTPM_VALID_COMMAND \<and> msg c = SPAPR_VTPM_TPM_COMMAND")
  case False
  from do_crq_other [OF False, of gs dma_in s] assms show ?thesis by auto
next
  case True
  show ?thesis
  proof (cases "state s = SPAPR_VTPM_STATE_EXECUTION")
    case True
    with \<open>valid c = SPAPR_VTPM_VALID_COMMAND \<and> msg c = SPAPR_VTPM_TPM_COMMAND\<close>
      do_crq_busy [of s c gs dma_in] assms show ?thesis by simp
  next
    case False
    let ?p = "tpm_spapr_process_cmd gs dma_in (s\<lparr>crq := c\<rparr>) (ucast (be32_to_cpu (data c)))"
    from True False have eq: "tpm_spapr_do_crq gs dma_in s c =
           (case ?p of
              Inl e \<Rightarrow> Inl e
            | Inr (rc, s2, effs) \<Rightarrow>
                if rc = H_SUCCESS then
                  Inr (H_SUCCESS, s2\<lparr>crq := (crq s2)\<lparr>valid := 0\<rparr>\<rparr>, effs)
                else
                  Inr (H_SUCCESS, s2,
                       effs @
                       [SendCrq (c\<lparr>valid := SPAPR_VTPM_MSG_RESULT,
                                   msg := SPAPR_VTPM_VTPM_ERROR,
                                   data := cpu_to_be32 SPAPR_VTPM_ERR_COPY_IN_FAILED\<rparr>)]))"
      by (simp add: do_crq_tpm_command)
    from assms eq obtain rc2 s2 e2 where p: "?p = Inr (rc2, s2, e2)"
      by (cases ?p) auto
    from process_cmd_result [OF p] have
      r: "state s2 = SPAPR_VTPM_STATE_EXECUTION" "be_buffer_size s2 = be_buffer_size s"
         "length (buffer s2) = length (buffer s)" "deliveries e2 = 1"
      by simp_all
    from assms eq p r False show ?thesis
      by (cases "rc2 = H_SUCCESS") (auto simp add: deliveries_append)
  qed
qed

lemma do_crq_total:
  assumes "unat (be_buffer_size s) \<le> length (buffer s)"
  shows "\<exists>rc s' effs. tpm_spapr_do_crq gs dma_in s c = Inr (rc, s', effs)"
proof (cases "valid c = SPAPR_VTPM_VALID_COMMAND \<and> msg c = SPAPR_VTPM_TPM_COMMAND")
  case False
  from do_crq_other [OF False, of gs dma_in s] show ?thesis by blast
next
  case True
  show ?thesis
  proof (cases "state s = SPAPR_VTPM_STATE_EXECUTION")
    case True
    with \<open>valid c = SPAPR_VTPM_VALID_COMMAND \<and> msg c = SPAPR_VTPM_TPM_COMMAND\<close>
      do_crq_busy [of s c gs dma_in] show ?thesis by simp
  next
    case False
    from assms have "unat (be_buffer_size (s\<lparr>crq := c\<rparr>)) \<le> length (buffer (s\<lparr>crq := c\<rparr>))"
      by simp
    from process_cmd_total [OF this] obtain rc2 s2 e2 where
      "tpm_spapr_process_cmd gs dma_in (s\<lparr>crq := c\<rparr>) (ucast (be32_to_cpu (data c))) =
         Inr (rc2, s2, e2)" by blast
    with True False show ?thesis
      by (simp add: do_crq_tpm_command)
  qed
qed

lemma completed_result:
  assumes "u_tpm_spapr_request_completed gs dma_rc send_rc s = Inr (s', effs)"
  shows "state s' = SPAPR_VTPM_STATE_COMPLETION \<and> be_buffer_size s' = be_buffer_size s
         \<and> buffer s' = buffer s \<and> dma_writes effs = 1 \<and> crq_sends effs = 1"
  using assms
  by (auto simp add: u_tpm_spapr_request_completed_def Let_def split: if_splits)

lemma completed_total:
  assumes "unat (min (ucast (gs (buffer s))) (be_buffer_size s)) \<le> length (buffer s)"
  shows "\<exists>s' effs. u_tpm_spapr_request_completed gs dma_rc send_rc s = Inr (s', effs)"
  using assms
  by (simp add: u_tpm_spapr_request_completed_def Let_def unat_min_ucast_32)

subsection \<open>Runs\<close>

lemma crq_step_inv:
  assumes "crq_step gs (s, n) ev = Inr (s', n')"
    and "n \<le> 1" and "n = 1 \<longrightarrow> state s = SPAPR_VTPM_STATE_EXECUTION"
  shows "n' \<le> 1 \<and> (n' = 1 \<longrightarrow> state s' = SPAPR_VTPM_STATE_EXECUTION)"
proof (cases ev)
  case (Dispatch c dma_in)
  with assms(1) obtain rc effs where
    d: "tpm_spapr_do_crq gs dma_in s c = Inr (rc, s', effs)" and n': "n' = n + deliveries effs"
    by (auto split: sum.splits)
  from do_crq_result [OF d] assms(2,3) n' show ?thesis by auto
next
  case (Completion dma_rc send_rc)
  show ?thesis
  proof (cases "n = 0")
    case True
    with Completion assms show ?thesis by simp
  next
    case False
    with Completion assms(1) obtain effs where
      "u_tpm_spapr_request_completed gs dma_rc send_rc s = Inr (s', effs)" and "n' = n - 1"
      by (auto simp add: tpm_spapr_request_completed_def split: sum.splits)
    with assms(2) show ?thesis by simp
  qed
qed

lemma crq_run_inv:
  "crq_run gs (s, n) evs = Inr (s', n') \<Longrightarrow> n \<le> 1 \<Longrightarrow>
   (n = 1 \<longrightarrow> state s = SPAPR_VTPM_STATE_EXECUTION) \<Longrightarrow>
   n' \<le> 1 \<and> (n' = 1 \<longrightarrow> state s' = SPAPR_VTPM_STATE_EXECUTION)"
proof (induction evs arbitrary: s n)
  case Nil
  then show ?case by simp
next
  case (Cons ev evs)
  from Cons.prems(1) obtain s1 n1 where
    st: "crq_step gs (s, n) ev = Inr (s1, n1)" and rn: "crq_run gs (s1, n1) evs = Inr (s', n')"
    by (auto split: sum.splits)
  from crq_step_inv [OF st Cons.prems(2,3)] Cons.IH [OF rn] show ?case by blast
qed

lemma crq_step_total:
  assumes "unat (be_buffer_size s) \<le> length (buffer s)"
  shows "\<exists>s' n'. crq_step gs (s, n) ev = Inr (s', n')
           \<and> unat (be_buffer_size s') \<le> length (buffer s')"
proof (cases ev)
  case (Dispatch c dma_in)
  from do_crq_total [OF assms] obtain rc s' effs where
    d: "tpm_spapr_do_crq gs dma_in s c = Inr (rc, s', effs)" by blast
  from do_crq_result [OF d] assms d Dispatch show ?thesis by simp
next
  case (Completion dma_rc send_rc)
  from completed_total [OF min_fits [OF assms]] obtain s' effs where
    d: "u_tpm_spapr_request_completed gs dma_rc send_rc s = Inr (s', effs)" by blast
  from completed_result [OF d] assms d Completion show ?thesis
    by (simp add: tpm_spapr_request_completed_def)
qed

lemma crq_run_total:
  "unat (be_buffer_size s) \<le> length (buffer s) \<Longrightarrow> \<exists>s' n'. crq_run gs (s, n) evs = Inr (s', n')"
proof (induction evs arbitrary: s n)
  case Nil
  then show ?case by simp
next
  case (Cons ev evs)
  from crq_step_total [OF Cons.prems] obtain s1 n1 where
    st: "crq_step gs (s, n) ev = Inr (s1, n1)"
    and f: "unat (be_buffer_size s1) \<le> length (buffer s1)" by blast
  from Cons.IH [OF f] st show ?case by simp
qed

subsection \<open>The claims\<close>

text \<open>
  C1. A TPM-command message that arrives while the device is executing is answered
  with \<^verbatim>\<open>H_BUSY\<close>: the device state, the saved request \<^verbatim>\<open>crq\<close> included, is left
  as it was and no call is made, so nothing is submitted to the backend. In every run
  of dispatches and completion callbacks the backend holds at most one command, and
  while it holds one the device is executing. A run on a device whose negotiated size
  fits the scratch buffer always returns.
\<close>

theorem tpm_spapr_at_most_one_in_flight:
  "(state s = SPAPR_VTPM_STATE_EXECUTION \<and> valid c = SPAPR_VTPM_VALID_COMMAND
      \<and> msg c = SPAPR_VTPM_TPM_COMMAND \<longrightarrow>
      tpm_spapr_do_crq gs dma_in s c = Inr (H_BUSY, s, []))
   \<and> (\<forall>s' n. crq_run gs (s, 0) evs = Inr (s', n) \<longrightarrow>
         n \<le> 1 \<and> (n = 1 \<longrightarrow> state s' = SPAPR_VTPM_STATE_EXECUTION))
   \<and> (unat (be_buffer_size s) \<le> length (buffer s) \<longrightarrow>
         (\<exists>s' n. crq_run gs (s, 0) evs = Inr (s', n)))"
  using do_crq_busy [of s c gs dma_in] crq_run_inv [of gs s 0 evs] crq_run_total [of s gs 0 evs]
  by auto

theorem tpm_spapr_at_most_one_in_flight_witness:
  "state vtpm_executing = SPAPR_VTPM_STATE_EXECUTION
   \<and> valid (command_crq SPAPR_VTPM_TPM_COMMAND) = SPAPR_VTPM_VALID_COMMAND
   \<and> msg (command_crq SPAPR_VTPM_TPM_COMMAND) = SPAPR_VTPM_TPM_COMMAND
   \<and> tpm_spapr_do_crq (\<lambda>b. 10) (0, []) vtpm_executing (command_crq SPAPR_VTPM_TPM_COMMAND) =
       Inr (H_BUSY, vtpm_executing, [])
   \<and> unat (be_buffer_size (vtpm_device 4096)) \<le> length (buffer (vtpm_device 4096))
   \<and> (\<exists>s' n. crq_run (\<lambda>b. 10) (vtpm_device 4096, 0)
                [Dispatch (command_crq SPAPR_VTPM_TPM_COMMAND) (0, []),
                 Dispatch (command_crq SPAPR_VTPM_TPM_COMMAND) (0, []),
                 Completion 0 0] = Inr (s', n) \<and> n \<le> 1)"
proof -
  have h1: "state vtpm_executing = SPAPR_VTPM_STATE_EXECUTION"
    and h2: "valid (command_crq SPAPR_VTPM_TPM_COMMAND) = SPAPR_VTPM_VALID_COMMAND"
    and h3: "msg (command_crq SPAPR_VTPM_TPM_COMMAND) = SPAPR_VTPM_TPM_COMMAND"
    and h4: "unat (be_buffer_size (vtpm_device 4096)) \<le> length (buffer (vtpm_device 4096))"
    by (simp_all add: vtpm_executing_def command_crq_def vtpm_device_def MAX_BUFFER_SIZE_def
          TARGET_PAGE_SIZE_def)
  from tpm_spapr_at_most_one_in_flight
         [where s = vtpm_executing and c = "command_crq SPAPR_VTPM_TPM_COMMAND"
            and gs = "\<lambda>b. 10" and dma_in = "(0, [])"]
       h1 h2 h3
  have a: "tpm_spapr_do_crq (\<lambda>b. 10) (0, []) vtpm_executing
             (command_crq SPAPR_VTPM_TPM_COMMAND) = Inr (H_BUSY, vtpm_executing, [])"
    by blast
  from tpm_spapr_at_most_one_in_flight
         [where s = "vtpm_device 4096" and gs = "\<lambda>b. 10"
            and evs = "[Dispatch (command_crq SPAPR_VTPM_TPM_COMMAND) (0, []),
                 Dispatch (command_crq SPAPR_VTPM_TPM_COMMAND) (0, []),
                 Completion 0 0]"]
       h4
  have b: "\<exists>s' n. crq_run (\<lambda>b. 10) (vtpm_device 4096, 0)
                [Dispatch (command_crq SPAPR_VTPM_TPM_COMMAND) (0, []),
                 Dispatch (command_crq SPAPR_VTPM_TPM_COMMAND) (0, []),
                 Completion 0 0] = Inr (s', n) \<and> n \<le> 1"
    by blast
  from h1 h2 h3 h4 a b show ?thesis by blast
qed

text \<open>
  C3. On a device with its page-sized scratch buffer, when the response length
  \<open>min (decoded response size) (negotiated buffer size)\<close> fits the buffer, the completion
  path sets the state to completed, DMA-writes exactly that many bytes from the start of
  the scratch buffer to the guest address saved in \<^verbatim>\<open>crq\<close>, and sends the saved message
  with tag result: on DMA success with opcode TPM-command with the response flag, the
  length written and the saved address; on DMA failure with opcode vTPM-error, length 0
  and data copy-out-failed.
\<close>

theorem tpm_spapr_request_completed_response:
  assumes len: "length (buffer s) = unat MAX_BUFFER_SIZE"
    and fits: "unat (min (ucast (gs (buffer s))) (be_buffer_size s)) \<le> length (buffer s)"
  shows "case u_tpm_spapr_request_completed gs dma_rc send_rc s of
           Inl e \<Rightarrow> False
         | Inr (s', effs) \<Rightarrow>
             state s' = SPAPR_VTPM_STATE_COMPLETION
             \<and> buffer s' = buffer s \<and> be_buffer_size s' = be_buffer_size s
             \<and> valid (crq s') = SPAPR_VTPM_MSG_RESULT
             \<and> reserved (crq s') = reserved (crq s)
             \<and> length (take (unat (min (ucast (gs (buffer s))) (be_buffer_size s))) (buffer s)) =
                 unat (min (ucast (gs (buffer s))) (be_buffer_size s))
             \<and> effs =
                 DmaWrite (ucast (be32_to_cpu (data (crq s))))
                   (take (unat (min (ucast (gs (buffer s))) (be_buffer_size s))) (buffer s)) #
                 (if dma_rc = H_SUCCESS then []
                  else [ErrorReport ''_tpm_spapr_request_completed: DMA write failure'']) @
                 SendCrq (crq s') #
                 (if send_rc \<noteq> 0
                  then [ErrorReport ''_tpm_spapr_request_completed: Error sending response'']
                  else [])
             \<and> (dma_rc = H_SUCCESS \<longrightarrow>
                  msg (crq s') = SPAPR_VTPM_TPM_COMMAND OR SPAPR_VTPM_MSG_RESULT
                  \<and> unat (be16_to_cpu (len (crq s'))) =
                      unat (min (ucast (gs (buffer s))) (be_buffer_size s))
                  \<and> data (crq s') = data (crq s))
             \<and> (dma_rc \<noteq> H_SUCCESS \<longrightarrow>
                  msg (crq s') = SPAPR_VTPM_VTPM_ERROR
                  \<and> be16_to_cpu (len (crq s')) = 0
                  \<and> be32_to_cpu (data (crq s')) = SPAPR_VTPM_ERR_COPY_OUT_FAILED)"
proof -
  let ?n = "ucast (min (ucast (gs (buffer s))) (be_buffer_size s)) :: 32 word"
  have n: "unat ?n = unat (min (ucast (gs (buffer s))) (be_buffer_size s))"
    by (rule unat_min_ucast_32)
  have small: "unat ?n \<le> 4096"
    using fits len n by (simp add: MAX_BUFFER_SIZE_def TARGET_PAGE_SIZE_def)
  have n16: "unat (be16_to_cpu (cpu_to_be16 (ucast ?n))) = unat ?n"
    using small by (simp only: be16_roundtrip unat_ucast_32_16)
  have ok: "\<not> length (buffer s) < unat ?n"
    using fits n by simp
  show ?thesis
    using ok n16 fits
    by (simp add: u_tpm_spapr_request_completed_def Let_def n be32_roundtrip be16_zero)
qed

theorem tpm_spapr_request_completed_response_witness:
  "length (buffer (vtpm_device 4096)) = unat MAX_BUFFER_SIZE
   \<and> unat (min (ucast ((\<lambda>b. 10 :: 32 word) (buffer (vtpm_device 4096))))
              (be_buffer_size (vtpm_device 4096))) \<le> length (buffer (vtpm_device 4096))
   \<and> (case u_tpm_spapr_request_completed (\<lambda>b. 10) 0 0 (vtpm_device 4096) of
         Inl e \<Rightarrow> False
       | Inr (s', effs) \<Rightarrow>
           state s' = SPAPR_VTPM_STATE_COMPLETION
           \<and> valid (crq s') = SPAPR_VTPM_MSG_RESULT
           \<and> msg (crq s') = SPAPR_VTPM_TPM_COMMAND OR SPAPR_VTPM_MSG_RESULT
           \<and> unat (be16_to_cpu (len (crq s'))) = 10)"
proof -
  have h1: "length (buffer (vtpm_device 4096)) = unat MAX_BUFFER_SIZE"
    by (simp add: vtpm_device_def)
  have h2: "unat (min (ucast ((\<lambda>b. 10 :: 32 word) (buffer (vtpm_device 4096))))
              (be_buffer_size (vtpm_device 4096))) \<le> length (buffer (vtpm_device 4096))"
    by (simp add: vtpm_device_def MAX_BUFFER_SIZE_def TARGET_PAGE_SIZE_def)
  have m: "unat (min (10 :: 64 word) (be_buffer_size (vtpm_device 4096))) = 10"
    by (simp add: vtpm_device_def)
  from tpm_spapr_request_completed_response [OF h1 h2, of 0 0] h1 h2 m
  show ?thesis
    by (auto simp add: H_SUCCESS_def split: sum.splits)
qed

text \<open>
  C5. Before a snapshot the wait leaves no command mid-execution, and
  \<^verbatim>\<open>tpm_spapr_pre_save\<close> records in \<^verbatim>\<open>run_bh_func\<close> exactly whether the backend holds
  a completed response that was not delivered, changing nothing else. The snapshot
  carries the saved request, the state, the scratch buffer and the flag. After the
  restore \<^verbatim>\<open>tpm_spapr_post_load\<close> runs the completion path on the restored state if the
  flag is set and does nothing otherwise: it makes one DMA write and one CRQ send when a
  response was pending, and none when none was.
\<close>

theorem tpm_spapr_save_restore:
  "case tpm_backend_wait_cmd_completed be of (be', completed) \<Rightarrow>
     case tpm_spapr_pre_save completed s of (s1, rc) \<Rightarrow>
       be' \<noteq> BE_EXECUTING \<and> rc = 0 \<and> s1 = s\<lparr>run_bh_func := completed\<rparr>
       \<and> (run_bh_func s1 \<longleftrightarrow> be' = BE_UNDELIVERED)
       \<and> crq (vmstate_load (vmstate_save s1) d) = crq s
       \<and> state (vmstate_load (vmstate_save s1) d) = state s
       \<and> buffer (vmstate_load (vmstate_save s1) d) = buffer s
       \<and> run_bh_func (vmstate_load (vmstate_save s1) d) = run_bh_func s1
       \<and> be_buffer_size (vmstate_load (vmstate_save s1) d) = be_buffer_size d
       \<and> tpm_spapr_post_load gs dma_rc send_rc (vmstate_load (vmstate_save s1) d) =
           (if run_bh_func s1 then
              (case u_tpm_spapr_request_completed gs dma_rc send_rc
                      (vmstate_load (vmstate_save s1) d) of
                 Inl e \<Rightarrow> Inl e
               | Inr (s', effs) \<Rightarrow> Inr (0, s', effs))
            else Inr (0, vmstate_load (vmstate_save s1) d, []))
       \<and> (\<forall>rc' s' effs.
             tpm_spapr_post_load gs dma_rc send_rc (vmstate_load (vmstate_save s1) d) =
               Inr (rc', s', effs) \<longrightarrow>
             rc' = 0
             \<and> dma_writes effs = (if be' = BE_UNDELIVERED then 1 else 0)
             \<and> crq_sends effs = (if be' = BE_UNDELIVERED then 1 else 0))
       \<and> (unat (min (ucast (gs (buffer s))) (be_buffer_size d)) \<le> length (buffer s) \<longrightarrow>
             (\<exists>s' effs.
                tpm_spapr_post_load gs dma_rc send_rc (vmstate_load (vmstate_save s1) d) =
                  Inr (0, s', effs)))"
proof -
  let ?r = "\<lambda>b. vmstate_load (vmstate_save (s\<lparr>run_bh_func := b\<rparr>)) d"
  have counts: "rc' = 0 \<and> dma_writes effs = (if b then 1 else 0)
                 \<and> crq_sends effs = (if b then 1 else 0)"
    if "tpm_spapr_post_load gs dma_rc send_rc (?r b) = Inr (rc', s', effs)"
    for b rc' s' effs
  proof (cases b)
    case True
    with that obtain s2 e2 where
      c: "u_tpm_spapr_request_completed gs dma_rc send_rc (?r True) = Inr (s2, e2)"
      and e: "effs = e2" "rc' = 0"
      by (auto simp add: tpm_spapr_post_load_def vmstate_save_def split: sum.splits)
    from completed_result [OF c] e True show ?thesis by simp
  next
    case False
    with that show ?thesis
      by (auto simp add: tpm_spapr_post_load_def vmstate_save_def)
  qed
  have total: "\<exists>s' effs. tpm_spapr_post_load gs dma_rc send_rc (?r b) = Inr (0, s', effs)"
    if "unat (min (ucast (gs (buffer s))) (be_buffer_size d)) \<le> length (buffer s)" for b
  proof (cases b)
    case True
    have "unat (min (ucast (gs (buffer (?r True)))) (be_buffer_size (?r True)))
            \<le> length (buffer (?r True))"
      using that by (simp add: vmstate_save_def)
    from completed_total [where gs = gs and s = "?r True", OF this] obtain s2 e2 where
      "u_tpm_spapr_request_completed gs dma_rc send_rc (?r True) = Inr (s2, e2)" by blast
    with True show ?thesis
      by (simp add: tpm_spapr_post_load_def vmstate_save_def)
  next
    case False
    then show ?thesis by (simp add: tpm_spapr_post_load_def vmstate_save_def)
  qed
  show ?thesis
  proof (cases be)
    case BE_IDLE
    with counts [of False] total [of False] show ?thesis
      by (simp add: tpm_spapr_pre_save_def tpm_spapr_post_load_def vmstate_save_def)
  next
    case BE_EXECUTING
    with counts [of True] total [of True] show ?thesis
      by (simp add: tpm_spapr_pre_save_def tpm_spapr_post_load_def vmstate_save_def)
  next
    case BE_UNDELIVERED
    with counts [of True] total [of True] show ?thesis
      by (simp add: tpm_spapr_pre_save_def tpm_spapr_post_load_def vmstate_save_def)
  qed
qed

theorem tpm_spapr_save_restore_witness:
  "tpm_backend_wait_cmd_completed BE_EXECUTING = (BE_UNDELIVERED, True)
   \<and> unat (min (ucast ((\<lambda>b. 10 :: 32 word) (buffer vtpm_executing)))
              (be_buffer_size (vtpm_device 4096))) \<le> length (buffer vtpm_executing)
   \<and> (\<exists>s' effs.
         tpm_spapr_post_load (\<lambda>b. 10) 0 0
           (vmstate_load (vmstate_save (vtpm_executing\<lparr>run_bh_func := True\<rparr>))
              (vtpm_device 4096)) = Inr (0, s', effs)
         \<and> dma_writes effs = 1 \<and> crq_sends effs = 1)"
proof -
  have h: "unat (min (ucast ((\<lambda>b. 10 :: 32 word) (buffer vtpm_executing)))
              (be_buffer_size (vtpm_device 4096))) \<le> length (buffer vtpm_executing)"
    by (simp add: vtpm_executing_def vtpm_device_def MAX_BUFFER_SIZE_def TARGET_PAGE_SIZE_def)
  from tpm_spapr_save_restore
         [where be = BE_EXECUTING and s = vtpm_executing and d = "vtpm_device 4096"
            and gs = "\<lambda>b. 10" and dma_rc = 0 and send_rc = 0] h
  show ?thesis
    by (simp add: tpm_spapr_pre_save_def) metis
qed

text \<open>
  C6, as amended. With a startup error of the backend, \<^verbatim>\<open>tpm_spapr_get_version\<close>
  reports the unspecified version whatever version the backend has, and the backend's
  version otherwise. The Get-version CRQ response carries the version that the last
  reset recorded, encoded as 0, 1 or 2; the reset records the backend's version as it is.
\<close>

theorem tpm_spapr_version_reporting:
  "tpm_spapr_get_version True v = TPM_VERSION_UNSPEC
   \<and> tpm_spapr_get_version False v = v
   \<and> be_tpm_version (fst (tpm_spapr_reset v B s)) = v
   \<and> (valid c = SPAPR_VTPM_VALID_COMMAND \<and> msg c = SPAPR_VTPM_GET_VERSION \<longrightarrow>
        tpm_spapr_do_crq gs dma_in s c =
          Inr (H_SUCCESS, s,
               [SendCrq (c\<lparr>msg := SPAPR_VTPM_GET_VERSION OR SPAPR_VTPM_MSG_RESULT,
                           len := cpu_to_be16 0,
                           data := cpu_to_be32 (case be_tpm_version s of
                                                  TPM_VERSION_UNSPEC \<Rightarrow> 0
                                                | TPM_VERSION_1_2 \<Rightarrow> 1
                                                | TPM_VERSION_2_0 \<Rightarrow> 2)\<rparr>)]))"
  by (cases "be_tpm_version s")
     (simp_all add: tpm_spapr_get_version_def tpm_spapr_reset_def tpm_spapr_do_crq_def Let_def
        crq_consts)

theorem tpm_spapr_version_reporting_witness:
  "valid (command_crq SPAPR_VTPM_GET_VERSION) = SPAPR_VTPM_VALID_COMMAND
   \<and> msg (command_crq SPAPR_VTPM_GET_VERSION) = SPAPR_VTPM_GET_VERSION
   \<and> tpm_spapr_do_crq (\<lambda>b. 10) (0, []) (vtpm_device 4096) (command_crq SPAPR_VTPM_GET_VERSION) =
       Inr (H_SUCCESS, vtpm_device 4096,
            [SendCrq ((command_crq SPAPR_VTPM_GET_VERSION)
               \<lparr>msg := SPAPR_VTPM_GET_VERSION OR SPAPR_VTPM_MSG_RESULT,
                len := cpu_to_be16 0,
                data := cpu_to_be32 0\<rparr>)])"
  using tpm_spapr_version_reporting
          [where c = "command_crq SPAPR_VTPM_GET_VERSION" and gs = "\<lambda>b. 10"
             and dma_in = "(0, [])" and s = "vtpm_device 4096"]
  by (simp add: command_crq_def vtpm_device_def)

text \<open>
  C6 as stated fails: a backend of version 2.0 with a startup error makes
  \<^verbatim>\<open>tpm_spapr_get_version\<close> report the unspecified version, while the Get-version CRQ
  response of the device reset on that backend carries data 2, not 0.
\<close>

theorem tpm_spapr_get_version_crq_counterexample:
  "tpm_spapr_get_version True TPM_VERSION_2_0 = TPM_VERSION_UNSPEC
   \<and> tpm_spapr_do_crq (\<lambda>b. 10) (0, [])
         (fst (tpm_spapr_reset TPM_VERSION_2_0 4096 (vtpm_device 0)))
         (command_crq SPAPR_VTPM_GET_VERSION) =
       Inr (H_SUCCESS, fst (tpm_spapr_reset TPM_VERSION_2_0 4096 (vtpm_device 0)),
            [SendCrq ((command_crq SPAPR_VTPM_GET_VERSION)
               \<lparr>msg := SPAPR_VTPM_GET_VERSION OR SPAPR_VTPM_MSG_RESULT,
                len := cpu_to_be16 0,
                data := cpu_to_be32 2\<rparr>)])
   \<and> be32_to_cpu (cpu_to_be32 2) = 2
   \<and> be32_to_cpu (cpu_to_be32 2) \<noteq> 0"
  by (simp add: tpm_spapr_get_version_def tpm_spapr_reset_def tpm_spapr_do_crq_def Let_def
        crq_consts command_crq_def vtpm_device_def cpu_to_be32_def)

text \<open>
  C7. When the DMA read of a TPM-command payload fails on a device that is not
  executing, and what the failed read stored fits the scratch buffer, the dispatch
  still returns success: the message is saved, the scratch buffer holds what the read
  stored in front of its old contents, the state is executing, and the request in the
  scratch buffer is submitted to the backend, with input length the minimum of the
  decoded command size and the size of the scratch buffer and output length the size
  of the scratch buffer. After the submission a vTPM-error response with data
  copy-in-failed is sent. Nothing else of the device changes.
\<close>

theorem tpm_spapr_dma_read_failure:
  assumes "valid c = SPAPR_VTPM_VALID_COMMAND" and "msg c = SPAPR_VTPM_TPM_COMMAND"
    and "state s \<noteq> SPAPR_VTPM_STATE_EXECUTION"
    and "fst dma_in \<noteq> H_SUCCESS"
    and "length (take (unat (be_buffer_size s)) (snd dma_in)) \<le> length (buffer s)"
  shows "case tpm_spapr_do_crq gs dma_in s c of
           Inl e \<Rightarrow> False
         | Inr (rc, s', effs) \<Rightarrow>
             rc = H_SUCCESS
             \<and> s' = s\<lparr>crq := c,
                       state := SPAPR_VTPM_STATE_EXECUTION,
                       buffer := take (unat (be_buffer_size s)) (snd dma_in) @
                                 drop (length (take (unat (be_buffer_size s)) (snd dma_in)))
                                   (buffer s),
                       cmd := \<lparr>locty = 0,
                               in_ptr = PTR_buffer,
                               in_len = ucast (min (ucast (gs (buffer s')))
                                                   (of_nat (length (buffer s)) :: 64 word)),
                               out_ptr = PTR_buffer,
                               out_len = of_nat (length (buffer s))\<rparr>\<rparr>
             \<and> length (buffer s') = length (buffer s)
             \<and> state s' \<in> {SPAPR_VTPM_STATE_NONE, SPAPR_VTPM_STATE_EXECUTION,
                              SPAPR_VTPM_STATE_COMPLETION}
             \<and> effs =
                 [DmaRead (ucast (be32_to_cpu (data c))) (be_buffer_size s),
                  ErrorReport ''tpm_spapr_got_payload: DMA read failure !'',
                  BackendDeliver (cmd s'),
                  SendCrq (c\<lparr>valid := SPAPR_VTPM_MSG_RESULT,
                              msg := SPAPR_VTPM_VTPM_ERROR,
                              data := cpu_to_be32 SPAPR_VTPM_ERR_COPY_IN_FAILED\<rparr>)]
             \<and> be32_to_cpu (cpu_to_be32 SPAPR_VTPM_ERR_COPY_IN_FAILED) = 3"
proof -
  let ?s1 = "s\<lparr>crq := c\<rparr>"
  from assms(4,5) have fits:
    "\<not> length (buffer ?s1) <
         (if fst dma_in = H_SUCCESS then unat (be_buffer_size ?s1)
          else length (take (unat (be_buffer_size ?s1)) (snd dma_in)))"
    by (simp del: length_take)
  have code: "be32_to_cpu (cpu_to_be32 SPAPR_VTPM_ERR_COPY_IN_FAILED) = 3"
    by (simp add: cpu_to_be32_def SPAPR_VTPM_ERR_COPY_IN_FAILED_def)
  from assms(4) have rc: "fst dma_in \<noteq> 0"
    by (simp add: H_SUCCESS_def)
  have len: "length (take (unat (be_buffer_size s)) (snd dma_in) @
                     drop (length (take (unat (be_buffer_size s)) (snd dma_in))) (buffer s)) =
             length (buffer s)"
    using assms(5) by (simp del: length_take)
  show ?thesis
    unfolding do_crq_tpm_command [OF assms(1,2,3)] process_cmd_eq tpm_send_eq
    using fits assms(4) rc code len
    by (simp del: length_take length_append length_drop)
qed

theorem tpm_spapr_dma_read_failure_witness:
  "valid (command_crq SPAPR_VTPM_TPM_COMMAND) = SPAPR_VTPM_VALID_COMMAND
   \<and> msg (command_crq SPAPR_VTPM_TPM_COMMAND) = SPAPR_VTPM_TPM_COMMAND
   \<and> state (vtpm_device 8192) \<noteq> SPAPR_VTPM_STATE_EXECUTION
   \<and> fst (-2 :: int, [1, 2, 3] :: 8 word list) \<noteq> H_SUCCESS
   \<and> length (take (unat (be_buffer_size (vtpm_device 8192)))
               (snd (-2 :: int, [1, 2, 3] :: 8 word list)))
       \<le> length (buffer (vtpm_device 8192))
   \<and> (case tpm_spapr_do_crq (\<lambda>b. 10) (-2, [1, 2, 3]) (vtpm_device 8192)
              (command_crq SPAPR_VTPM_TPM_COMMAND) of
         Inl e \<Rightarrow> False
       | Inr (rc, s', effs) \<Rightarrow>
           rc = H_SUCCESS \<and> state s' = SPAPR_VTPM_STATE_EXECUTION
           \<and> take 3 (buffer s') = [1, 2, 3]
           \<and> in_len (cmd s') = 10 \<and> out_len (cmd s') = 4096
           \<and> deliveries effs = 1 \<and> crq_sends effs = 1)"
proof -
  have h1: "valid (command_crq SPAPR_VTPM_TPM_COMMAND) = SPAPR_VTPM_VALID_COMMAND"
    and h2: "msg (command_crq SPAPR_VTPM_TPM_COMMAND) = SPAPR_VTPM_TPM_COMMAND"
    and h3: "state (vtpm_device 8192) \<noteq> SPAPR_VTPM_STATE_EXECUTION"
    and h4: "fst (-2 :: int, [1, 2, 3] :: 8 word list) \<noteq> H_SUCCESS"
    and h5: "length (take (unat (be_buffer_size (vtpm_device 8192)))
               (snd (-2 :: int, [1, 2, 3] :: 8 word list)))
             \<le> length (buffer (vtpm_device 8192))"
    by (simp_all add: command_crq_def vtpm_device_def H_SUCCESS_def MAX_BUFFER_SIZE_def
          TARGET_PAGE_SIZE_def SPAPR_VTPM_STATE_NONE_def SPAPR_VTPM_STATE_EXECUTION_def)
  have len: "length (buffer (vtpm_device 8192)) = 4096"
    by (simp add: vtpm_device_def MAX_BUFFER_SIZE_def TARGET_PAGE_SIZE_def)
  have got: "take (unat (be_buffer_size (vtpm_device 8192)))
               (snd (-2 :: int, [1, 2, 3] :: 8 word list)) = [1, 2, 3]"
    by (simp add: vtpm_device_def)
  from tpm_spapr_dma_read_failure [OF h1 h2 h3 h4 h5, of "\<lambda>b. 10"] h1 h2 h3 h4 h5
  show ?thesis
    by (auto simp add: len got vtpm_device_def MAX_BUFFER_SIZE_def TARGET_PAGE_SIZE_def
          SPAPR_VTPM_STATE_NONE_def SPAPR_VTPM_STATE_EXECUTION_def split: sum.splits)
qed

text \<open>
  C8. Every reset negotiates the maximum of the page-rounded size that the backend
  reports and the size of the scratch buffer, and leaves the scratch buffer as it is.
  At a backend that reports 8192 bytes the reset negotiates 8192 bytes while the scratch
  buffer is one page of 4096 bytes, and the next TPM-command dispatch asks the DMA engine
  for 8192 bytes into that buffer.
\<close>

theorem tpm_spapr_reset_exceeds_buffer:
  "be_buffer_size (fst (tpm_spapr_reset v B s)) =
     max (ROUND_UP B TARGET_PAGE_SIZE) (of_nat (length (buffer s)))
   \<and> buffer (fst (tpm_spapr_reset v B s)) = buffer s
   \<and> be_buffer_size (fst (tpm_spapr_reset TPM_VERSION_2_0 8192 (vtpm_device 0))) = 8192
   \<and> length (buffer (fst (tpm_spapr_reset TPM_VERSION_2_0 8192 (vtpm_device 0)))) = 4096
   \<and> tpm_spapr_do_crq (\<lambda>b. 10) (0, replicate 8192 0)
        (fst (tpm_spapr_reset TPM_VERSION_2_0 8192 (vtpm_device 0)))
        (command_crq SPAPR_VTPM_TPM_COMMAND) = Inl BufferOverrun"
  by (simp add: tpm_spapr_reset_def tpm_spapr_do_crq_def tpm_spapr_process_cmd_def Let_def
        vtpm_device_def command_crq_def crq_consts ROUND_UP_def TARGET_PAGE_SIZE_def
        MAX_BUFFER_SIZE_def SPAPR_VTPM_STATE_NONE_def SPAPR_VTPM_STATE_EXECUTION_def
        H_SUCCESS_def)

text \<open>
  C10. The Get-RTCE-buffer-size response stores the negotiated size in the 16-bit
  big-endian length field: the guest reads the size modulo \<open>2 ^ 16\<close>, which is less than
  the negotiated size as soon as that is 65536 or more. A reset negotiates at least what
  the backend reports, so such sizes occur.
\<close>

theorem tpm_spapr_get_rtce_buffer_size_truncates:
  "(valid c = SPAPR_VTPM_VALID_COMMAND \<and> msg c = SPAPR_VTPM_GET_RTCE_BUFFER_SIZE \<longrightarrow>
      tpm_spapr_do_crq gs dma_in s c =
        Inr (H_SUCCESS, s,
             [SendCrq (c\<lparr>msg := SPAPR_VTPM_GET_RTCE_BUFFER_SIZE OR SPAPR_VTPM_MSG_RESULT,
                         len := cpu_to_be16 (ucast (be_buffer_size s))\<rparr>)]))
   \<and> unat (be16_to_cpu (cpu_to_be16 (ucast (be_buffer_size s)))) =
       unat (be_buffer_size s) mod 2 ^ 16
   \<and> (65536 \<le> unat (be_buffer_size s) \<longrightarrow>
        unat (be16_to_cpu (cpu_to_be16 (ucast (be_buffer_size s)))) < unat (be_buffer_size s))
   \<and> (unat B \<le> 2 ^ 64 - 4096 \<longrightarrow>
        B \<le> be_buffer_size (fst (tpm_spapr_reset v B s)))"
proof -
  have a: "unat (be16_to_cpu (cpu_to_be16 (ucast (be_buffer_size s)))) =
            unat (be_buffer_size s) mod 2 ^ 16"
    by (simp add: be16_roundtrip unat_ucast_64_16)
  have b: "unat (be16_to_cpu (cpu_to_be16 (ucast (be_buffer_size s)))) < unat (be_buffer_size s)"
    if "65536 \<le> unat (be_buffer_size s)"
  proof -
    have "unat (be_buffer_size s) mod 2 ^ 16 < 65536" by simp
    with that a show ?thesis by linarith
  qed
  have c: "B \<le> be_buffer_size (fst (tpm_spapr_reset v B s))" if "unat B \<le> 2 ^ 64 - 4096"
    using ROUND_UP_page_ge [OF that] by (simp add: tpm_spapr_reset_def Let_def le_max_iff_disj)
  have d: "tpm_spapr_do_crq gs dma_in s c =
        Inr (H_SUCCESS, s,
             [SendCrq (c\<lparr>msg := SPAPR_VTPM_GET_RTCE_BUFFER_SIZE OR SPAPR_VTPM_MSG_RESULT,
                         len := cpu_to_be16 (ucast (be_buffer_size s))\<rparr>)])"
    if "valid c = SPAPR_VTPM_VALID_COMMAND" "msg c = SPAPR_VTPM_GET_RTCE_BUFFER_SIZE"
    using that
    by (simp add: tpm_spapr_do_crq_def Let_def SPAPR_VTPM_VALID_COMMAND_def
          SPAPR_VTPM_VALID_INIT_CRQ_COMMAND_def SPAPR_VTPM_GET_RTCE_BUFFER_SIZE_def
          SPAPR_VTPM_TPM_COMMAND_def)
  from a b c d show ?thesis by blast
qed

theorem tpm_spapr_get_rtce_buffer_size_truncates_witness:
  "valid (command_crq SPAPR_VTPM_GET_RTCE_BUFFER_SIZE) = SPAPR_VTPM_VALID_COMMAND
   \<and> msg (command_crq SPAPR_VTPM_GET_RTCE_BUFFER_SIZE) = SPAPR_VTPM_GET_RTCE_BUFFER_SIZE
   \<and> 65536 \<le> unat (be_buffer_size (vtpm_device 65536))
   \<and> unat (65536 :: 64 word) \<le> 2 ^ 64 - 4096
   \<and> tpm_spapr_do_crq (\<lambda>b. 10) (0, []) (vtpm_device 65536)
         (command_crq SPAPR_VTPM_GET_RTCE_BUFFER_SIZE) =
       Inr (H_SUCCESS, vtpm_device 65536,
            [SendCrq ((command_crq SPAPR_VTPM_GET_RTCE_BUFFER_SIZE)
               \<lparr>msg := SPAPR_VTPM_GET_RTCE_BUFFER_SIZE OR SPAPR_VTPM_MSG_RESULT,
                len := cpu_to_be16 (ucast (be_buffer_size (vtpm_device 65536)))\<rparr>)])
   \<and> unat (be16_to_cpu (cpu_to_be16 (ucast (be_buffer_size (vtpm_device 65536))))) = 0
   \<and> 65536 \<le> be_buffer_size (fst (tpm_spapr_reset TPM_VERSION_2_0 65536 (vtpm_device 65536)))"
  using tpm_spapr_get_rtce_buffer_size_truncates
          [where c = "command_crq SPAPR_VTPM_GET_RTCE_BUFFER_SIZE" and gs = "\<lambda>b. 10"
             and dma_in = "(0, [])" and s = "vtpm_device 65536" and B = 65536
             and v = TPM_VERSION_2_0]
  by (simp add: command_crq_def vtpm_device_def)

end
